theory Spec2Isabelle
  imports Main "HOL-Library.Word" "HOL-Library.Sublist"
begin

section \<open>The image client of the layers module (ImageClient.cpp)\<close>

text \<open>
  The development follows \<^verbatim>\<open>ImageClientSingle::UpdateImage\<close>,
  \<^verbatim>\<open>ImageClient::CreateTextureClientForImage\<close>,
  \<^verbatim>\<open>ImageClientSingle::OnDetach\<close>, the constructors and
  \<^verbatim>\<open>ImageClientBridge::UpdateImage\<close>. Objects that the file only holds by pointer
  (texture clients, layers, forwarders) are represented by their identity. Every call that
  leaves the image client (texture allocation, \<^verbatim>\<open>AddTextureClient\<close>, the forwarder's
  instructions) is recorded, in program order, in a list of calls returned next to the
  result, so that "no call was made" and "this call came before that one" are statements
  about that list. \<^verbatim>\<open>MOZ_ASSERT\<close> is compiled out of release builds and is not
  modelled; the blocks under \<^verbatim>\<open>XP_WIN\<close> and \<^verbatim>\<open>MOZ_WIDGET_ANDROID\<close> are not part
  of the build considered here. The parameter \<^verbatim>\<open>aContentFlags\<close> of
  \<^verbatim>\<open>UpdateImage\<close> is never read and is left out.
\<close>

subsection \<open>Data\<close>

type_synonym TextureClient = nat
type_synonym Layer = nat
type_synonym Forwarder = nat
type_synonym RenderRoot = nat
type_synonym TextureFlags = nat
type_synonym IntRect = "int \<times> int \<times> int \<times> int"
type_synonym PlanarYCbCrData = nat

text \<open>Modelled from the spec: the class \<^verbatim>\<open>CompositableHandle\<close> is declared outside
  \<^verbatim>\<open>ImageClient.cpp\<close>. A producer that "has no container handle yet" has the handle
  \<open>None\<close>, the one that \<^verbatim>\<open>!mAsyncContainerHandle\<close> holds for; any other handle is
  \<open>Some\<close> of its identity, and two handles are equal when these are.\<close>

type_synonym CompositableHandle = "nat option"

datatype ImageFormat = PLANAR_YCBCR | OTHER_FORMAT

datatype CompositableType = UNKNOWN | IMAGE | IMAGE_BRIDGE

text \<open>What the methods of an \<^verbatim>\<open>Image\<close> return; \<open>GetTextureClient\<close> is the answer to
  \<^verbatim>\<open>image->GetTextureClient(GetForwarder())\<close>, \<open>None\<close> for a null pointer.\<close>

record Image =
  GetSerial :: nat
  IsValid :: bool
  GetFormat :: ImageFormat
  GetTextureClient :: "TextureClient option"
  GetData :: "PlanarYCbCrData option"
  GetPictureRect :: IntRect

record OwningImage =
  mImage :: Image
  mTimeStamp :: nat
  mFrameID :: nat
  mProducerID :: nat

record ImageContainer =
  CurrentImages :: "OwningImage list"
  GenerationCounter :: "32 word"
  GetAsyncContainerHandle :: CompositableHandle

record TimedTextureClient =
  mTextureClient :: TextureClient
  mTimeStamp :: nat
  mPictureRect :: IntRect
  mFrameID :: nat
  mProducerID :: nat

record Buffer =
  mImageSerial :: nat
  mTextureClient :: TextureClient

record ImageClient =
  mForwarder :: "Forwarder option"
  mTextureFlags :: TextureFlags
  mLayer :: "Layer option"
  mType :: CompositableType
  mLastUpdateGenerationCounter :: "32 word"

record ImageClientSingle = ImageClient +
  mBuffers :: "Buffer list"

record ImageClientBridge = ImageClient +
  mAsyncContainerHandle :: CompositableHandle

text \<open>The answers of the collaborators that \<^verbatim>\<open>ImageClient.cpp\<close> calls but does not
  define: the texture allocator (\<^verbatim>\<open>TextureClient::CreateForYCbCr\<close>,
  \<^verbatim>\<open>TextureClient::CreateForDrawing\<close>, \<open>None\<close> for a null pointer), the texture lock,
  the pixel upload, \<^verbatim>\<open>BorrowDrawTarget\<close> (true for a non-null draw target),
  \<^verbatim>\<open>texture->GetAllocator()->IPCOpen()\<close> and
  \<^verbatim>\<open>CompositableClient::AddTextureClient\<close>. They are parameters of the model: every
  theorem holds for all of them.\<close>

record Env =
  CreateForYCbCr :: "Image \<Rightarrow> TextureClient option"
  CreateForDrawing :: "Image \<Rightarrow> TextureClient option"
  Lock :: "TextureClient \<Rightarrow> bool"
  UpdateYCbCrTextureClient :: "TextureClient \<Rightarrow> PlanarYCbCrData \<Rightarrow> bool"
  BorrowDrawTarget :: "TextureClient \<Rightarrow> bool"
  IPCOpen :: "TextureClient \<Rightarrow> bool"
  CompositableClient_AddTextureClient :: "TextureClient \<Rightarrow> bool"

text \<open>The calls that leave the image client. The two allocator calls carry the serial of
  the image they allocate for.\<close>

datatype Call =
    Call_CreateForYCbCr nat
  | Call_CreateForDrawing nat
  | Call_AddTextureClient TextureClient
  | Call_SyncWithObject TextureClient
  | Call_UseTextures "TimedTextureClient list" "RenderRoot option"
  | Call_RemoveTextureFromCompositable TextureClient "RenderRoot option"
  | Call_AttachAsyncCompositable CompositableHandle Layer

subsection \<open>Constructors\<close>

definition ImageClient_new :: "Forwarder option \<Rightarrow> TextureFlags \<Rightarrow> CompositableType \<Rightarrow> ImageClient" where
  "ImageClient_new aFwd aFlags aType =
     \<lparr>mForwarder = aFwd, mTextureFlags = aFlags, mLayer = None, mType = aType,
      mLastUpdateGenerationCounter = 0\<rparr>"

definition ImageClientSingle_new :: "Forwarder option \<Rightarrow> TextureFlags \<Rightarrow> CompositableType \<Rightarrow> ImageClientSingle" where
  "ImageClientSingle_new aFwd aFlags aType =
     ImageClient.extend (ImageClient_new aFwd aFlags aType) (ImageClientSingle.fields [])"

definition ImageClientBridge_new :: "Forwarder option \<Rightarrow> TextureFlags \<Rightarrow> ImageClientBridge" where
  "ImageClientBridge_new aFwd aFlags =
     ImageClient.extend (ImageClient_new aFwd aFlags IMAGE_BRIDGE) (ImageClientBridge.fields None)"

subsection \<open>CreateTextureClientForImage\<close>

text \<open>Every early \<^verbatim>\<open>return nullptr\<close> of the source is a branch that yields \<open>None\<close>.
  The source surface of an image that is not planar YCbCr is taken to be there, as the
  source asserts.\<close>

definition CreateTextureClientForImage :: "Env \<Rightarrow> Image \<Rightarrow> TextureClient option \<times> Call list" where
  "CreateTextureClientForImage env aImage =
     (if GetFormat aImage = PLANAR_YCBCR then
        (case GetData aImage of
           None \<Rightarrow> (None, [])
         | Some data \<Rightarrow>
             (case CreateForYCbCr env aImage of
                None \<Rightarrow> (None, [Call_CreateForYCbCr (GetSerial aImage)])
              | Some texture \<Rightarrow>
                  if \<not> Lock env texture then (None, [Call_CreateForYCbCr (GetSerial aImage)])
                  else if \<not> UpdateYCbCrTextureClient env texture data
                    then (None, [Call_CreateForYCbCr (GetSerial aImage)])
                  else (Some texture, [Call_CreateForYCbCr (GetSerial aImage)])))
      else
        (case CreateForDrawing env aImage of
           None \<Rightarrow> (None, [Call_CreateForDrawing (GetSerial aImage)])
         | Some texture \<Rightarrow>
             if \<not> Lock env texture then (None, [Call_CreateForDrawing (GetSerial aImage)])
             else if \<not> BorrowDrawTarget env texture
               then (None, [Call_CreateForDrawing (GetSerial aImage)])
             else (Some texture, [Call_CreateForDrawing (GetSerial aImage)])))"

subsection \<open>ImageClientSingle::UpdateImage\<close>

text \<open>The first loop walks \<open>images\<close> from the last index down and removes the images that
  are not valid.\<close>

fun RemoveInvalid :: "OwningImage list \<Rightarrow> OwningImage list" where
  "RemoveInvalid [] = []"
| "RemoveInvalid (img # images) =
     (let rest = RemoveInvalid images
      in if \<not> IsValid (mImage img) then rest else img # rest)"

text \<open>The inner loop walks \<open>mBuffers\<close> from the last index down. Every buffer with the
  image's serial is removed; when the image has no texture client of its own
  (\<open>hasTextureClient\<close> is false) the buffer's texture client is taken. The elements after
  the head are visited before the head, as in the source.\<close>

fun ReuseScan :: "nat \<Rightarrow> bool \<Rightarrow> TextureClient option \<Rightarrow> Buffer list \<Rightarrow> TextureClient option \<times> Buffer list" where
  "ReuseScan serial hasTextureClient texture [] = (texture, [])"
| "ReuseScan serial hasTextureClient texture (b # bs) =
     (case ReuseScan serial hasTextureClient texture bs of
        (texture', bs') \<Rightarrow>
          if mImageSerial b = serial
          then ((if hasTextureClient then texture' else Some (Buffer.mTextureClient b)), bs')
          else (texture', b # bs'))"

text \<open>One pass through the body of the loop over \<open>images\<close>: the body returns false, or
  continues without adding anything, or appends a descriptor and a buffer. Each outcome
  carries \<open>mBuffers\<close> as the body leaves it and the calls the body made.\<close>

datatype BodyResult =
    BodyReturnFalse "Buffer list" "Call list"
  | BodyContinue "Buffer list" "Call list"
  | BodyAppend "Buffer list" TimedTextureClient Buffer "Call list"

text \<open>\<open>ObtainTexture\<close> is the first part of the body: the image's own texture client,
  the scan of \<open>mBuffers\<close>, and, when the texture is still null, the slow path through
  \<open>CreateTextureClientForImage\<close>. \<open>LoopBody\<close> adds the checks that follow
  (\<^verbatim>\<open>if (!texture) return false\<close>, the channel check with its \<^verbatim>\<open>continue\<close>,
  \<^verbatim>\<open>AddTextureClient\<close>) and the two appends.\<close>

definition ObtainTexture :: "Env \<Rightarrow> Image \<Rightarrow> Buffer list \<Rightarrow> TextureClient option \<times> Buffer list \<times> Call list" where
  "ObtainTexture env img bufs =
     (case ReuseScan (GetSerial img) (GetTextureClient img \<noteq> None) (GetTextureClient img) bufs of
        (texture, bufs') \<Rightarrow>
          (case texture of
             None \<Rightarrow> (case CreateTextureClientForImage env img of (texture', calls) \<Rightarrow> (texture', bufs', calls))
           | Some t \<Rightarrow> (Some t, bufs', [])))"

definition LoopBody :: "Env \<Rightarrow> OwningImage \<Rightarrow> Buffer list \<Rightarrow> BodyResult" where
  "LoopBody env img bufs =
     (let im = mImage img in
      case ObtainTexture env im bufs of
        (None, bufs', calls) \<Rightarrow> BodyReturnFalse bufs' calls
      | (Some texture, bufs', calls) \<Rightarrow>
          if \<not> IPCOpen env texture then BodyContinue bufs' calls
          else if \<not> CompositableClient_AddTextureClient env texture
            then BodyReturnFalse bufs' (calls @ [Call_AddTextureClient texture])
          else BodyAppend bufs'
                 \<lparr>TimedTextureClient.mTextureClient = texture,
                  TimedTextureClient.mTimeStamp = OwningImage.mTimeStamp img,
                  mPictureRect = GetPictureRect im,
                  TimedTextureClient.mFrameID = OwningImage.mFrameID img,
                  TimedTextureClient.mProducerID = OwningImage.mProducerID img\<rparr>
                 \<lparr>mImageSerial = GetSerial im, mTextureClient = texture\<rparr>
                 (calls @ [Call_AddTextureClient texture, Call_SyncWithObject texture]))"

fun BodyBufs :: "BodyResult \<Rightarrow> Buffer list" where
  "BodyBufs (BodyReturnFalse bufs cs) = bufs"
| "BodyBufs (BodyContinue bufs cs) = bufs"
| "BodyBufs (BodyAppend bufs t newBuf cs) = bufs"

fun BodyCalls :: "BodyResult \<Rightarrow> Call list" where
  "BodyCalls (BodyReturnFalse bufs cs) = cs"
| "BodyCalls (BodyContinue bufs cs) = cs"
| "BodyCalls (BodyAppend bufs t newBuf cs) = cs"

datatype LoopResult =
    LoopReturnFalse "Buffer list" "Call list"
  | LoopDone "Buffer list" "Buffer list" "TimedTextureClient list" "Call list"

text \<open>The loop over \<open>images\<close>, with \<open>mBuffers\<close>, \<open>newBuffers\<close>, \<open>textures\<close> and the
  calls made so far as its state.\<close>

fun ImagesLoop :: "Env \<Rightarrow> OwningImage list \<Rightarrow> Buffer list \<Rightarrow> Buffer list \<Rightarrow> TimedTextureClient list \<Rightarrow> Call list \<Rightarrow> LoopResult" where
  "ImagesLoop env [] bufs newBuffers textures calls = LoopDone bufs newBuffers textures calls"
| "ImagesLoop env (img # images) bufs newBuffers textures calls =
     (case LoopBody env img bufs of
        BodyReturnFalse bufs' cs \<Rightarrow> LoopReturnFalse bufs' (calls @ cs)
      | BodyContinue bufs' cs \<Rightarrow> ImagesLoop env images bufs' newBuffers textures (calls @ cs)
      | BodyAppend bufs' t newBuf cs \<Rightarrow>
          ImagesLoop env images bufs' (newBuffers @ [newBuf]) (textures @ [t]) (calls @ cs))"

fun LoopCalls :: "LoopResult \<Rightarrow> Call list" where
  "LoopCalls (LoopReturnFalse bufs cs) = cs"
| "LoopCalls (LoopDone bufs newBuffers textures cs) = cs"

definition RemoveAll :: "Buffer list \<Rightarrow> RenderRoot option \<Rightarrow> Call list" where
  "RemoveAll bufs aRenderRoot =
     map (\<lambda>b. Call_RemoveTextureFromCompositable (Buffer.mTextureClient b) aRenderRoot) bufs"

text \<open>The result is the returned boolean, the client after the call and the calls made.
  \<^verbatim>\<open>mBuffers.SwapElements(newBuffers)\<close> leaves \<open>newBuffers\<close> in \<open>mBuffers\<close>; the old
  list dies with the local variable.\<close>

definition UpdateImage :: "Env \<Rightarrow> ImageContainer \<Rightarrow> RenderRoot option \<Rightarrow> ImageClientSingle \<Rightarrow> bool \<times> ImageClientSingle \<times> Call list" where
  "UpdateImage env aContainer aRenderRoot this =
     (let images = CurrentImages aContainer; generationCounter = GenerationCounter aContainer in
      if mLastUpdateGenerationCounter this = generationCounter then (True, this, [])
      else
        let this1 = this\<lparr>mLastUpdateGenerationCounter := generationCounter\<rparr>;
            images1 = RemoveInvalid images
        in if images1 = [] then
             (True, this1\<lparr>mBuffers := []\<rparr>, RemoveAll (mBuffers this1) aRenderRoot)
           else
             (case ImagesLoop env images1 (mBuffers this1) [] [] [] of
                LoopReturnFalse bufs calls \<Rightarrow> (False, this1\<lparr>mBuffers := bufs\<rparr>, calls)
              | LoopDone bufs newBuffers textures calls \<Rightarrow>
                  (True, this1\<lparr>mBuffers := newBuffers\<rparr>,
                   calls @ [Call_UseTextures textures aRenderRoot] @ RemoveAll bufs aRenderRoot)))"


text \<open>\<open>FlushAllImages\<close> removes with \<^verbatim>\<open>Some(wr::RenderRoot::Default)\<close>; the
  enumerator's value is the parameter \<open>defaultRoot\<close>.\<close>

definition FlushAllImages :: "RenderRoot \<Rightarrow> ImageClientSingle \<Rightarrow> ImageClientSingle \<times> Call list" where
  "FlushAllImages defaultRoot this = (this\<lparr>mBuffers := []\<rparr>, RemoveAll (mBuffers this) (Some defaultRoot))"

subsection \<open>ImageClientBridge::UpdateImage\<close>

definition Bridge_UpdateImage :: "ImageContainer \<Rightarrow> ImageClientBridge \<Rightarrow> bool \<times> ImageClientBridge \<times> Call list" where
  "Bridge_UpdateImage aContainer this =
     (case (mForwarder this, mLayer this) of
        (Some fwd, Some layer) \<Rightarrow>
          if mAsyncContainerHandle this = GetAsyncContainerHandle aContainer then (True, this, [])
          else
            let this1 = this\<lparr>mAsyncContainerHandle := GetAsyncContainerHandle aContainer\<rparr>
            in if mAsyncContainerHandle this1 = None then (True, this1, [])
               else (True, this1, [Call_AttachAsyncCompositable (mAsyncContainerHandle this1) layer])
      | _ \<Rightarrow> (False, this, []))"

subsection \<open>Sequences of calls and properties of the list of calls\<close>

text \<open>A caller that invokes \<^verbatim>\<open>ImageClientBridge::UpdateImage\<close> once per container
  state, in order, collecting the results and the calls.\<close>

fun Bridge_UpdateImage_seq :: "ImageContainer list \<Rightarrow> ImageClientBridge \<Rightarrow> bool list \<times> ImageClientBridge \<times> Call list" where
  "Bridge_UpdateImage_seq [] this = ([], this, [])"
| "Bridge_UpdateImage_seq (c # cs) this =
     (case Bridge_UpdateImage c this of
        (ok, this1, calls) \<Rightarrow>
          (case Bridge_UpdateImage_seq cs this1 of
             (oks, this2, calls2) \<Rightarrow> (ok # oks, this2, calls @ calls2)))"

text \<open>The two instructions of the forwarder that change the compositable's textures.\<close>

fun IsUseOrRemove :: "Call \<Rightarrow> bool" where
  "IsUseOrRemove (Call_UseTextures ts r) = True"
| "IsUseOrRemove (Call_RemoveTextureFromCompositable t r) = True"
| "IsUseOrRemove c = False"

text \<open>Every \<^verbatim>\<open>RemoveTextureFromCompositable\<close> in the list comes after a
  \<^verbatim>\<open>UseTextures\<close>.\<close>

fun UseBeforeRemove :: "Call list \<Rightarrow> bool" where
  "UseBeforeRemove [] = True"
| "UseBeforeRemove (Call_UseTextures ts r # cs) = True"
| "UseBeforeRemove (Call_RemoveTextureFromCompositable t r # cs) = False"
| "UseBeforeRemove (c # cs) = UseBeforeRemove cs"

text \<open>The serials of the images of a snapshot.\<close>

abbreviation SerialsOf :: "OwningImage list \<Rightarrow> nat set" where
  "SerialsOf imgs \<equiv> set (map (\<lambda>img. GetSerial (mImage img)) imgs)"

text \<open>The allocator calls made for the image with serial \<open>s\<close>.\<close>

fun IsAllocFor :: "nat \<Rightarrow> Call \<Rightarrow> bool" where
  "IsAllocFor s (Call_CreateForYCbCr s') = (s' = s)"
| "IsAllocFor s (Call_CreateForDrawing s') = (s' = s)"
| "IsAllocFor s c = False"

subsection \<open>Concrete collaborators, frames and clients\<close>

text \<open>A platform on which every allocation, lock and upload succeeds and every channel is
  open; one whose allocator always fails; one on which the channel of the texture \<open>t0\<close>
  is closed.\<close>

definition example_env :: Env where
  "example_env =
     \<lparr>CreateForYCbCr = (\<lambda>i. Some (100 + GetSerial i)),
      CreateForDrawing = (\<lambda>i. Some (200 + GetSerial i)),
      Lock = (\<lambda>t. True), UpdateYCbCrTextureClient = (\<lambda>t d. True),
      BorrowDrawTarget = (\<lambda>t. True), IPCOpen = (\<lambda>t. True),
      CompositableClient_AddTextureClient = (\<lambda>t. True)\<rparr>"

definition example_env_no_memory :: Env where
  "example_env_no_memory =
     example_env\<lparr>CreateForYCbCr := (\<lambda>i. None), CreateForDrawing := (\<lambda>i. None)\<rparr>"

definition example_env_closed :: "TextureClient \<Rightarrow> Env" where
  "example_env_closed t0 = example_env\<lparr>IPCOpen := (\<lambda>t. t \<noteq> t0)\<rparr>"

definition example_frame :: "nat \<Rightarrow> OwningImage" where
  "example_frame s =
     \<lparr>mImage = \<lparr>GetSerial = s, IsValid = True, GetFormat = OTHER_FORMAT,
                GetTextureClient = None, GetData = None, GetPictureRect = (0, 0, 640, 480)\<rparr>,
      mTimeStamp = 0, mFrameID = s, mProducerID = 0\<rparr>"

definition example_container :: "nat list \<Rightarrow> 32 word \<Rightarrow> ImageContainer" where
  "example_container ids generation =
     \<lparr>CurrentImages = map example_frame ids, GenerationCounter = generation,
      GetAsyncContainerHandle = None\<rparr>"

definition example_invalid_frame :: "nat \<Rightarrow> OwningImage" where
  "example_invalid_frame s =
     (example_frame s)\<lparr>mImage := (mImage (example_frame s))\<lparr>IsValid := False\<rparr>\<rparr>"

definition example_invalid_container :: "nat list \<Rightarrow> 32 word \<Rightarrow> ImageContainer" where
  "example_invalid_container ids generation =
     \<lparr>CurrentImages = map example_invalid_frame ids, GenerationCounter = generation,
      GetAsyncContainerHandle = None\<rparr>"

definition example_client :: "Buffer list \<Rightarrow> 32 word \<Rightarrow> ImageClientSingle" where
  "example_client bufs generation =
     \<lparr>mForwarder = Some 0, mTextureFlags = 0, mLayer = None, mType = IMAGE,
      mLastUpdateGenerationCounter = generation, mBuffers = bufs\<rparr>"

definition example_bridge :: "Layer option \<Rightarrow> CompositableHandle \<Rightarrow> ImageClientBridge" where
  "example_bridge layer handle =
     \<lparr>mForwarder = Some 0, mTextureFlags = 0, mLayer = layer, mType = IMAGE_BRIDGE,
      mLastUpdateGenerationCounter = 0, mAsyncContainerHandle = handle\<rparr>"

definition example_handle_container :: "CompositableHandle \<Rightarrow> ImageContainer" where
  "example_handle_container handle =
     \<lparr>CurrentImages = [], GenerationCounter = 0, GetAsyncContainerHandle = handle\<rparr>"

section \<open>Basic facts about the loops\<close>

lemma ImageClientSingle_new_eq:
  "ImageClientSingle_new aFwd aFlags aType =
     \<lparr>mForwarder = aFwd, mTextureFlags = aFlags, mLayer = None, mType = aType,
      mLastUpdateGenerationCounter = 0, mBuffers = []\<rparr>"
  by (simp add: ImageClientSingle_new_def ImageClient_new_def ImageClient.defs ImageClientSingle.defs)

lemma ImageClientBridge_new_eq:
  "ImageClientBridge_new aFwd aFlags =
     \<lparr>mForwarder = aFwd, mTextureFlags = aFlags, mLayer = None, mType = IMAGE_BRIDGE,
      mLastUpdateGenerationCounter = 0, mAsyncContainerHandle = None\<rparr>"
  by (simp add: ImageClientBridge_new_def ImageClient_new_def ImageClient.defs ImageClientBridge.defs)

lemma RemoveInvalid_filter:
  "RemoveInvalid images = filter (\<lambda>img. IsValid (mImage img)) images"
  by (induction images) (simp_all add: Let_def)

lemma ReuseScan_eq:
  "ReuseScan s h t bs =
     ((if h then t else (case find (\<lambda>b. mImageSerial b = s) bs of None \<Rightarrow> t
                          | Some b \<Rightarrow> Some (Buffer.mTextureClient b))),
      filter (\<lambda>b. mImageSerial b \<noteq> s) bs)"
  by (induction bs) (auto split: prod.splits option.splits)

lemma ObtainTexture_eq:
  "ObtainTexture env im bufs =
     (case GetTextureClient im of
        Some t \<Rightarrow> (Some t, filter (\<lambda>b. mImageSerial b \<noteq> GetSerial im) bufs, [])
      | None \<Rightarrow>
         (case find (\<lambda>b. mImageSerial b = GetSerial im) bufs of
            Some b \<Rightarrow> (Some (Buffer.mTextureClient b), filter (\<lambda>b. mImageSerial b \<noteq> GetSerial im) bufs, [])
          | None \<Rightarrow> (fst (CreateTextureClientForImage env im),
                      filter (\<lambda>b. mImageSerial b \<noteq> GetSerial im) bufs,
                      snd (CreateTextureClientForImage env im))))"
  by (simp add: ObtainTexture_def ReuseScan_eq split: prod.splits option.splits)

lemma Create_calls_not_forwarder:
  "c \<in> set (snd (CreateTextureClientForImage env im)) \<Longrightarrow> \<not> IsUseOrRemove c"
  by (auto simp: CreateTextureClientForImage_def split: if_splits option.splits)

lemma Create_calls_alloc:
  "c \<in> set (snd (CreateTextureClientForImage env im)) \<Longrightarrow> IsAllocFor s c \<Longrightarrow> s = GetSerial im"
  by (auto simp: CreateTextureClientForImage_def split: if_splits option.splits)

lemma ObtainTexture_bufs':
  "fst (snd (ObtainTexture env im bufs)) = filter (\<lambda>b. mImageSerial b \<noteq> GetSerial im) bufs"
  by (simp add: ObtainTexture_eq split: option.splits)

lemma ObtainTexture_calls_not_forwarder:
  "c \<in> set (snd (snd (ObtainTexture env im bufs))) \<Longrightarrow> \<not> IsUseOrRemove c"
  by (auto simp: ObtainTexture_eq split: option.splits dest: Create_calls_not_forwarder)

lemma ObtainTexture_calls_alloc:
  "c \<in> set (snd (snd (ObtainTexture env im bufs))) \<Longrightarrow> IsAllocFor s c \<Longrightarrow> s = GetSerial im"
  by (auto simp: ObtainTexture_eq split: option.splits dest: Create_calls_alloc)

lemma LoopBody_bufs: "BodyBufs (LoopBody env img bufs) = filter (\<lambda>b. mImageSerial b \<noteq> GetSerial (mImage img)) bufs"
  using ObtainTexture_bufs' [of env "mImage img" bufs]
  by (auto simp: LoopBody_def Let_def split: prod.splits option.splits)

lemma LoopBody_calls_not_forwarder:
  "c \<in> set (BodyCalls (LoopBody env img bufs)) \<Longrightarrow> \<not> IsUseOrRemove c"
  using ObtainTexture_calls_not_forwarder [of c env "mImage img" bufs]
  by (auto simp: LoopBody_def Let_def split: prod.splits option.splits if_splits)

lemma LoopBody_calls_alloc:
  "c \<in> set (BodyCalls (LoopBody env img bufs)) \<Longrightarrow> IsAllocFor s c \<Longrightarrow> s = GetSerial (mImage img)"
  using ObtainTexture_calls_alloc [of c env "mImage img" bufs s]
  by (auto simp: LoopBody_def Let_def split: prod.splits option.splits if_splits)


lemma filter_serial_step:
  "filter (\<lambda>b. mImageSerial b \<notin> S) (filter (\<lambda>b. mImageSerial b \<noteq> s) bufs)
     = filter (\<lambda>b. mImageSerial b \<notin> insert s S) bufs"
  by (induction bufs) auto

lemma ImagesLoop_done_bufs:
  "ImagesLoop env imgs bufs nb tx cs = LoopDone bufs' nb' tx' cs' \<Longrightarrow>
     bufs' = filter (\<lambda>b. mImageSerial b \<notin> SerialsOf imgs) bufs"
proof (induction imgs arbitrary: bufs nb tx cs)
  case Nil
  then show ?case by simp
next
  case (Cons img imgs)
  show ?case
  proof (cases "LoopBody env img bufs")
    case (BodyReturnFalse b c)
    with Cons.prems show ?thesis by simp
  next
    case (BodyContinue b c)
    with Cons.prems have "ImagesLoop env imgs b nb tx (cs @ c) = LoopDone bufs' nb' tx' cs'" by simp
    from Cons.IH [OF this] LoopBody_bufs [of env img bufs] BodyContinue
    show ?thesis by (simp add: filter_serial_step)
  next
    case (BodyAppend b t n c)
    with Cons.prems have "ImagesLoop env imgs b (nb @ [n]) (tx @ [t]) (cs @ c) = LoopDone bufs' nb' tx' cs'" by simp
    from Cons.IH [OF this] LoopBody_bufs [of env img bufs] BodyAppend
    show ?thesis by (simp add: filter_serial_step)
  qed
qed

lemma ImagesLoop_false_first:
  "ImagesLoop env imgs bufs nb tx cs = LoopReturnFalse bufs' cs' \<Longrightarrow>
     \<exists>n<length imgs.
        bufs' = filter (\<lambda>b. mImageSerial b \<notin> SerialsOf (take (Suc n) imgs)) bufs
      \<and> (\<exists>c. LoopBody env (imgs ! n) (filter (\<lambda>b. mImageSerial b \<notin> SerialsOf (take n imgs)) bufs)
                = BodyReturnFalse bufs' c)
      \<and> (\<forall>k<n. \<forall>b c. LoopBody env (imgs ! k) (filter (\<lambda>b. mImageSerial b \<notin> SerialsOf (take k imgs)) bufs)
                \<noteq> BodyReturnFalse b c)"
proof (induction imgs arbitrary: bufs nb tx cs)
  case Nil
  then show ?case by simp
next
  case (Cons i imgs)
  let ?b1 = "filter (\<lambda>b. mImageSerial b \<noteq> GetSerial (mImage i)) bufs"
  have step: "filter (\<lambda>b. mImageSerial b \<notin> SerialsOf (take m imgs)) ?b1
                = filter (\<lambda>b. mImageSerial b \<notin> SerialsOf (take (Suc m) (i # imgs))) bufs" for m
    by (simp add: filter_serial_step)
  have rest: ?case
    if loop: "ImagesLoop env imgs ?b1 nb1 tx1 cs1 = LoopReturnFalse bufs' cs'"
      and nf: "\<forall>b c. LoopBody env i bufs \<noteq> BodyReturnFalse b c" for nb1 tx1 cs1
  proof -
    from Cons.IH [OF loop] obtain n c where n: "n < length imgs"
      and eq: "bufs' = filter (\<lambda>b. mImageSerial b \<notin> SerialsOf (take (Suc n) imgs)) ?b1"
      and fail: "LoopBody env (imgs ! n) (filter (\<lambda>b. mImageSerial b \<notin> SerialsOf (take n imgs)) ?b1)
                   = BodyReturnFalse bufs' c"
      and before: "\<forall>k<n. \<forall>b c. LoopBody env (imgs ! k) (filter (\<lambda>b. mImageSerial b \<notin> SerialsOf (take k imgs)) ?b1)
                \<noteq> BodyReturnFalse b c"
      by blast
    have a: "Suc n < length (i # imgs)" using n by simp
    have b: "bufs' = filter (\<lambda>b. mImageSerial b \<notin> SerialsOf (take (Suc (Suc n)) (i # imgs))) bufs"
      using eq unfolding step .
    have c: "LoopBody env ((i # imgs) ! Suc n)
               (filter (\<lambda>b. mImageSerial b \<notin> SerialsOf (take (Suc n) (i # imgs))) bufs)
             = BodyReturnFalse bufs' c"
      using fail unfolding step by simp
    have d: "\<forall>k<Suc n. \<forall>b c. LoopBody env ((i # imgs) ! k)
               (filter (\<lambda>b. mImageSerial b \<notin> SerialsOf (take k (i # imgs))) bufs) \<noteq> BodyReturnFalse b c"
    proof (intro allI impI)
      fix k b c assume k: "k < Suc n"
      show "LoopBody env ((i # imgs) ! k)
               (filter (\<lambda>b. mImageSerial b \<notin> SerialsOf (take k (i # imgs))) bufs) \<noteq> BodyReturnFalse b c"
      proof (cases k)
        case 0
        with nf show ?thesis by simp
      next
        case (Suc k')
        with k have "k' < n" by simp
        with before have "LoopBody env (imgs ! k') (filter (\<lambda>b. mImageSerial b \<notin> SerialsOf (take k' imgs)) ?b1)
                \<noteq> BodyReturnFalse b c" by blast
        then show ?thesis unfolding step Suc by simp
      qed
    qed
    from a b c d show ?thesis by blast
  qed
  show ?case
  proof (cases "LoopBody env i bufs")
    case (BodyReturnFalse b c)
    with Cons.prems LoopBody_bufs [of env i bufs]
    have e: "bufs' = b" "b = ?b1" by simp_all
    have "0 < length (i # imgs)" by simp
    moreover have "bufs' = filter (\<lambda>b. mImageSerial b \<notin> SerialsOf (take (Suc 0) (i # imgs))) bufs"
      using e by simp
    moreover have "LoopBody env ((i # imgs) ! 0)
               (filter (\<lambda>b. mImageSerial b \<notin> SerialsOf (take 0 (i # imgs))) bufs) = BodyReturnFalse bufs' c"
      using BodyReturnFalse e by simp
    ultimately show ?thesis by blast
  next
    case (BodyContinue b c)
    with LoopBody_bufs [of env i bufs] have "b = ?b1" by simp
    with Cons.prems BodyContinue
    have "ImagesLoop env imgs ?b1 nb tx (cs @ c) = LoopReturnFalse bufs' cs'" by simp
    then show ?thesis by (rule rest) (simp add: BodyContinue)
  next
    case (BodyAppend b t nw c)
    with LoopBody_bufs [of env i bufs] have "b = ?b1" by simp
    with Cons.prems BodyAppend
    have "ImagesLoop env imgs ?b1 (nb @ [nw]) (tx @ [t]) (cs @ c) = LoopReturnFalse bufs' cs'" by simp
    then show ?thesis by (rule rest) (simp add: BodyAppend)
  qed
qed

lemma ImagesLoop_calls:
  "\<exists>cs2. LoopCalls (ImagesLoop env imgs bufs nb tx cs) = cs @ cs2
       \<and> (\<forall>c \<in> set cs2. \<not> IsUseOrRemove c)
       \<and> (\<forall>c \<in> set cs2. \<forall>s. IsAllocFor s c \<longrightarrow> s \<in> SerialsOf imgs)"
proof (induction imgs arbitrary: bufs nb tx cs)
  case Nil
  then show ?case by simp
next
  case (Cons img imgs)
  have body: "\<forall>c \<in> set (BodyCalls (LoopBody env img bufs)). \<not> IsUseOrRemove c
                \<and> (\<forall>s. IsAllocFor s c \<longrightarrow> s = GetSerial (mImage img))"
    using LoopBody_calls_not_forwarder LoopBody_calls_alloc by blast
  show ?case
  proof (cases "LoopBody env img bufs")
    case (BodyReturnFalse b c)
    with body show ?thesis by auto
  next
    case (BodyContinue b c)
    from Cons.IH [of b nb tx "cs @ c"] obtain cs2 where
      "LoopCalls (ImagesLoop env imgs b nb tx (cs @ c)) = (cs @ c) @ cs2"
      "\<forall>c \<in> set cs2. \<not> IsUseOrRemove c" "\<forall>c \<in> set cs2. \<forall>s. IsAllocFor s c \<longrightarrow> s \<in> SerialsOf imgs"
      by blast
    with body BodyContinue show ?thesis
      by (intro exI [of _ "c @ cs2"]) auto
  next
    case (BodyAppend b t nw c)
    from Cons.IH [of b "nb @ [nw]" "tx @ [t]" "cs @ c"] obtain cs2 where
      "LoopCalls (ImagesLoop env imgs b (nb @ [nw]) (tx @ [t]) (cs @ c)) = (cs @ c) @ cs2"
      "\<forall>c \<in> set cs2. \<not> IsUseOrRemove c" "\<forall>c \<in> set cs2. \<forall>s. IsAllocFor s c \<longrightarrow> s \<in> SerialsOf imgs"
      by blast
    with body BodyAppend show ?thesis
      by (intro exI [of _ "c @ cs2"]) auto
  qed
qed

lemma LoopBody_Append:
  "LoopBody env img bufs = BodyAppend b t nw c \<Longrightarrow>
     TimedTextureClient.mTextureClient t = Buffer.mTextureClient nw
     \<and> IPCOpen env (Buffer.mTextureClient nw)
     \<and> CompositableClient_AddTextureClient env (Buffer.mTextureClient nw)
     \<and> mImageSerial nw = GetSerial (mImage img)
     \<and> fst (ObtainTexture env (mImage img) bufs) = Some (Buffer.mTextureClient nw)"
  by (auto simp: LoopBody_def Let_def split: prod.splits option.splits if_splits)

lemma ImagesLoop_done_new:
  "ImagesLoop env imgs bufs nb tx cs = LoopDone bufs' nb' tx' cs' \<Longrightarrow>
     \<exists>nb2 tx2. nb' = nb @ nb2 \<and> tx' = tx @ tx2
       \<and> map TimedTextureClient.mTextureClient tx2 = map Buffer.mTextureClient nb2
       \<and> (\<forall>b \<in> set nb2. IPCOpen env (Buffer.mTextureClient b) \<and> mImageSerial b \<in> SerialsOf imgs)"
proof (induction imgs arbitrary: bufs nb tx cs)
  case Nil
  then show ?case by simp
next
  case (Cons img imgs)
  show ?case
  proof (cases "LoopBody env img bufs")
    case (BodyReturnFalse b c)
    with Cons.prems show ?thesis by simp
  next
    case (BodyContinue b c)
    with Cons.prems have "ImagesLoop env imgs b nb tx (cs @ c) = LoopDone bufs' nb' tx' cs'" by simp
    from Cons.IH [OF this] show ?thesis by auto
  next
    case (BodyAppend b t nw c)
    with Cons.prems have "ImagesLoop env imgs b (nb @ [nw]) (tx @ [t]) (cs @ c) = LoopDone bufs' nb' tx' cs'" by simp
    from Cons.IH [OF this] obtain nb2 tx2 where h: "nb' = (nb @ [nw]) @ nb2" "tx' = (tx @ [t]) @ tx2"
      "map TimedTextureClient.mTextureClient tx2 = map Buffer.mTextureClient nb2"
      "\<forall>b \<in> set nb2. IPCOpen env (Buffer.mTextureClient b) \<and> mImageSerial b \<in> SerialsOf imgs" by blast
    with LoopBody_Append [OF BodyAppend] show ?thesis
      by (intro exI [of _ "nw # nb2"] exI [of _ "t # tx2"]) auto
  qed
qed


lemmas example_defs = example_env_def example_env_no_memory_def example_env_closed_def
  example_frame_def example_container_def example_client_def example_invalid_frame_def
  example_invalid_container_def

lemmas eval_defs = UpdateImage_def LoopBody_def ObtainTexture_def CreateTextureClientForImage_def
  RemoveAll_def Let_def

lemma UseBeforeRemove_append:
  "\<forall>c \<in> set pre. \<not> IsUseOrRemove c \<Longrightarrow> UseBeforeRemove (pre @ Call_UseTextures ts r # rest)"
proof (induction pre)
  case Nil
  then show ?case by simp
next
  case (Cons c pre)
  then show ?case by (cases c) simp_all
qed

lemma find_filter_keep:
  "find P xs = Some b \<Longrightarrow> (\<And>x. P x \<Longrightarrow> Q x) \<Longrightarrow> find P (filter Q xs) = Some b"
  by (induction xs) (auto split: if_splits)

lemma find_Some_props: "find P xs = Some b \<Longrightarrow> P b \<and> b \<in> set xs"
  by (induction xs) (auto split: if_splits)

lemma ObtainTexture_reuse:
  assumes "GetTextureClient im = None" "find (\<lambda>b. mImageSerial b = GetSerial im) bufs = Some b"
  shows "ObtainTexture env im bufs =
           (Some (Buffer.mTextureClient b), filter (\<lambda>b. mImageSerial b \<noteq> GetSerial im) bufs, [])"
  using assms by (simp add: ObtainTexture_eq)

lemma LoopBody_reuse:
  assumes "GetTextureClient (mImage img) = None"
    "find (\<lambda>b. mImageSerial b = GetSerial (mImage img)) bufs = Some b"
  shows "BodyCalls (LoopBody env img bufs) = [] \<or>
         BodyCalls (LoopBody env img bufs) = [Call_AddTextureClient (Buffer.mTextureClient b)] \<or>
         BodyCalls (LoopBody env img bufs) =
           [Call_AddTextureClient (Buffer.mTextureClient b), Call_SyncWithObject (Buffer.mTextureClient b)]"
    and "IPCOpen env (Buffer.mTextureClient b) \<Longrightarrow> LoopBody env img bufs = BodyAppend bufs1 t nw c \<Longrightarrow> nw = b"
    and "IPCOpen env (Buffer.mTextureClient b) \<Longrightarrow> LoopBody env img bufs \<noteq> BodyContinue bufs1 c"
  using ObtainTexture_reuse [OF assms, of env] find_Some_props [OF assms(2)]
  by (auto simp: LoopBody_def Let_def split: if_splits)

lemma ImagesLoop_calls_done:
  assumes "ImagesLoop env imgs bufs nb tx cs = LoopDone bufs' nb' tx' cs'" "s \<notin> SerialsOf imgs"
  shows "\<exists>cs2. cs' = cs @ cs2 \<and> (\<forall>x \<in> set cs2. \<not> IsAllocFor s x)"
proof -
  from ImagesLoop_calls [of env imgs bufs nb tx cs] obtain cs2 where
    "LoopCalls (ImagesLoop env imgs bufs nb tx cs) = cs @ cs2"
    "\<forall>c \<in> set cs2. \<forall>s. IsAllocFor s c \<longrightarrow> s \<in> SerialsOf imgs" by blast
  with assms show ?thesis by (intro exI [of _ cs2]) auto
qed

lemma ImagesLoop_reuse:
  assumes "ImagesLoop env imgs bufs nb tx cs = LoopDone bufs' nb' tx' cs'"
    and "img \<in> set imgs"
    and "distinct (map (\<lambda>i. GetSerial (mImage i)) imgs)"
    and "GetTextureClient (mImage img) = None"
    and "find (\<lambda>b. mImageSerial b = GetSerial (mImage img)) bufs = Some b"
  shows "\<exists>cs2. cs' = cs @ cs2 \<and> (\<forall>x \<in> set cs2. \<not> IsAllocFor (GetSerial (mImage img)) x)
           \<and> (IPCOpen env (Buffer.mTextureClient b) \<longrightarrow> b \<in> set nb')"
  using assms
proof (induction imgs arbitrary: bufs nb tx cs)
  case Nil
  then show ?case by simp
next
  case (Cons i imgs)
  let ?s = "GetSerial (mImage img)"
  show ?case
  proof (cases "img = i")
    case True
    then have notin: "?s \<notin> SerialsOf imgs" using Cons.prems(3) by auto
    have bc: "\<forall>x \<in> set (BodyCalls (LoopBody env i bufs)). \<not> IsAllocFor ?s x"
      using LoopBody_reuse(1) [OF Cons.prems(4,5), of env] True by auto
    show ?thesis
    proof (cases "LoopBody env i bufs")
      case (BodyReturnFalse b1 c1)
      with Cons.prems(1) show ?thesis by simp
    next
      case (BodyContinue b1 c1)
      with Cons.prems(1) have l: "ImagesLoop env imgs b1 nb tx (cs @ c1) = LoopDone bufs' nb' tx' cs'" by simp
      from ImagesLoop_calls_done [OF l notin]
      obtain cs2 where "cs' = (cs @ c1) @ cs2" "\<forall>x \<in> set cs2. \<not> IsAllocFor ?s x" by blast
      moreover have "\<not> IPCOpen env (Buffer.mTextureClient b)"
        using LoopBody_reuse(3) [OF Cons.prems(4,5), of env b1 c1] BodyContinue True by auto
      ultimately show ?thesis using bc BodyContinue
        by (intro exI [of _ "c1 @ cs2"]) auto
    next
      case (BodyAppend b1 t nw c1)
      with Cons.prems(1) have l: "ImagesLoop env imgs b1 (nb @ [nw]) (tx @ [t]) (cs @ c1) = LoopDone bufs' nb' tx' cs'" by simp
      from ImagesLoop_calls_done [OF l notin]
      obtain cs2 where "cs' = (cs @ c1) @ cs2" "\<forall>x \<in> set cs2. \<not> IsAllocFor ?s x" by blast
      moreover have "IPCOpen env (Buffer.mTextureClient b) \<longrightarrow> b \<in> set nb'"
        using LoopBody_reuse(2) [OF Cons.prems(4,5), of env b1 t nw c1] BodyAppend True
          ImagesLoop_done_new [OF l] by auto
      ultimately show ?thesis using bc BodyAppend
        by (intro exI [of _ "c1 @ cs2"]) auto
    qed
  next
    case False
    with Cons.prems(2) have mem: "img \<in> set imgs" by simp
    with Cons.prems(3) have ne: "GetSerial (mImage i) \<noteq> ?s" by auto
    from Cons.prems(3) have dist: "distinct (map (\<lambda>i. GetSerial (mImage i)) imgs)" by simp
    have bc: "\<forall>x \<in> set (BodyCalls (LoopBody env i bufs)). \<not> IsAllocFor ?s x"
      using LoopBody_calls_alloc [of _ env i bufs ?s] ne by auto
    have bb: "BodyBufs (LoopBody env i bufs) = filter (\<lambda>b. mImageSerial b \<noteq> GetSerial (mImage i)) bufs"
      by (rule LoopBody_bufs)
    have f: "find (\<lambda>b. mImageSerial b = ?s) (filter (\<lambda>b. mImageSerial b \<noteq> GetSerial (mImage i)) bufs) = Some b"
      using Cons.prems(5) ne by (intro find_filter_keep) auto
    show ?thesis
    proof (cases "LoopBody env i bufs")
      case (BodyReturnFalse b1 c1)
      with Cons.prems(1) show ?thesis by simp
    next
      case (BodyContinue b1 c1)
      with Cons.prems(1) have l: "ImagesLoop env imgs b1 nb tx (cs @ c1) = LoopDone bufs' nb' tx' cs'" by simp
      from bb BodyContinue f have f1: "find (\<lambda>b. mImageSerial b = ?s) b1 = Some b" by simp
      from Cons.IH [OF l mem dist Cons.prems(4) f1]
      obtain cs2 where "cs' = (cs @ c1) @ cs2" "\<forall>x \<in> set cs2. \<not> IsAllocFor ?s x"
        "IPCOpen env (Buffer.mTextureClient b) \<longrightarrow> b \<in> set nb'" by blast
      then show ?thesis using bc BodyContinue
        by (intro exI [of _ "c1 @ cs2"]) auto
    next
      case (BodyAppend b1 t nw c1)
      with Cons.prems(1) have l: "ImagesLoop env imgs b1 (nb @ [nw]) (tx @ [t]) (cs @ c1) = LoopDone bufs' nb' tx' cs'" by simp
      from bb BodyAppend f have f1: "find (\<lambda>b. mImageSerial b = ?s) b1 = Some b" by simp
      from Cons.IH [OF l mem dist Cons.prems(4) f1]
      obtain cs2 where "cs' = (cs @ c1) @ cs2" "\<forall>x \<in> set cs2. \<not> IsAllocFor ?s x"
        "IPCOpen env (Buffer.mTextureClient b) \<longrightarrow> b \<in> set nb'" by blast
      then show ?thesis using bc BodyAppend
        by (intro exI [of _ "c1 @ cs2"]) auto
    qed
  qed
qed

lemma ImagesLoop_reuse_calls:
  assumes "img \<in> set imgs"
    and "distinct (map (\<lambda>i. GetSerial (mImage i)) imgs)"
    and "GetTextureClient (mImage img) = None"
    and "find (\<lambda>b. mImageSerial b = GetSerial (mImage img)) bufs = Some b"
  shows "\<exists>cs2. LoopCalls (ImagesLoop env imgs bufs nb tx cs) = cs @ cs2
           \<and> (\<forall>x \<in> set cs2. \<not> IsAllocFor (GetSerial (mImage img)) x)"
  using assms
proof (induction imgs arbitrary: bufs nb tx cs)
  case Nil
  then show ?case by simp
next
  case (Cons i imgs)
  let ?s = "GetSerial (mImage img)"
  show ?case
  proof (cases "img = i")
    case True
    then have notin: "?s \<notin> SerialsOf imgs" using Cons.prems(2) by auto
    have bc: "\<forall>x \<in> set (BodyCalls (LoopBody env i bufs)). \<not> IsAllocFor ?s x"
      using LoopBody_reuse(1) [OF Cons.prems(3,4), of env] True by auto
    have tail: "\<exists>cs2. LoopCalls (ImagesLoop env imgs b1 nb1 tx1 cs1) = cs1 @ cs2
                  \<and> (\<forall>x \<in> set cs2. \<not> IsAllocFor ?s x)" for b1 nb1 tx1 cs1
      using ImagesLoop_calls [of env imgs b1 nb1 tx1 cs1] notin by blast
    show ?thesis
    proof (cases "LoopBody env i bufs")
      case (BodyReturnFalse b1 c1)
      with bc show ?thesis by (intro exI [of _ c1]) auto
    next
      case (BodyContinue b1 c1)
      from tail [of b1 nb tx "cs @ c1"] obtain cs2 where
        "LoopCalls (ImagesLoop env imgs b1 nb tx (cs @ c1)) = (cs @ c1) @ cs2"
        "\<forall>x \<in> set cs2. \<not> IsAllocFor ?s x" by blast
      with bc BodyContinue show ?thesis by (intro exI [of _ "c1 @ cs2"]) auto
    next
      case (BodyAppend b1 t nw c1)
      from tail [of b1 "nb @ [nw]" "tx @ [t]" "cs @ c1"] obtain cs2 where
        "LoopCalls (ImagesLoop env imgs b1 (nb @ [nw]) (tx @ [t]) (cs @ c1)) = (cs @ c1) @ cs2"
        "\<forall>x \<in> set cs2. \<not> IsAllocFor ?s x" by blast
      with bc BodyAppend show ?thesis by (intro exI [of _ "c1 @ cs2"]) auto
    qed
  next
    case False
    with Cons.prems(1) have mem: "img \<in> set imgs" by simp
    with Cons.prems(2) have ne: "GetSerial (mImage i) \<noteq> ?s" by auto
    from Cons.prems(2) have dist: "distinct (map (\<lambda>i. GetSerial (mImage i)) imgs)" by simp
    have bc: "\<forall>x \<in> set (BodyCalls (LoopBody env i bufs)). \<not> IsAllocFor ?s x"
      using LoopBody_calls_alloc [of _ env i bufs ?s] ne by auto
    have bb: "BodyBufs (LoopBody env i bufs) = filter (\<lambda>b. mImageSerial b \<noteq> GetSerial (mImage i)) bufs"
      by (rule LoopBody_bufs)
    have f: "find (\<lambda>b. mImageSerial b = ?s) (BodyBufs (LoopBody env i bufs)) = Some b"
      unfolding bb using Cons.prems(4) ne by (intro find_filter_keep) auto
    have tail: "\<exists>cs2. LoopCalls (ImagesLoop env imgs (BodyBufs (LoopBody env i bufs)) nb1 tx1 cs1) = cs1 @ cs2
                  \<and> (\<forall>x \<in> set cs2. \<not> IsAllocFor ?s x)" for nb1 tx1 cs1
      by (rule Cons.IH [OF mem dist Cons.prems(3) f])
    show ?thesis
    proof (cases "LoopBody env i bufs")
      case (BodyReturnFalse b1 c1)
      with bc show ?thesis by (intro exI [of _ c1]) auto
    next
      case (BodyContinue b1 c1)
      from tail [of nb tx "cs @ c1"] BodyContinue obtain cs2 where
        "LoopCalls (ImagesLoop env imgs b1 nb tx (cs @ c1)) = (cs @ c1) @ cs2"
        "\<forall>x \<in> set cs2. \<not> IsAllocFor ?s x" by auto
      with bc BodyContinue show ?thesis by (intro exI [of _ "c1 @ cs2"]) auto
    next
      case (BodyAppend b1 t nw c1)
      from tail [of "nb @ [nw]" "tx @ [t]" "cs @ c1"] BodyAppend obtain cs2 where
        "LoopCalls (ImagesLoop env imgs b1 (nb @ [nw]) (tx @ [t]) (cs @ c1)) = (cs @ c1) @ cs2"
        "\<forall>x \<in> set cs2. \<not> IsAllocFor ?s x" by auto
      with bc BodyAppend show ?thesis by (intro exI [of _ "c1 @ cs2"]) auto
    qed
  qed
qed

lemma UpdateImage_calls_cases:
  "UpdateImage env c rr this = (ok, this', calls) \<Longrightarrow>
     calls = []
   \<or> (RemoveInvalid (CurrentImages c) = [] \<and> calls = RemoveAll (mBuffers this) rr)
   \<or> (\<not> ok \<and> calls = LoopCalls (ImagesLoop env (RemoveInvalid (CurrentImages c)) (mBuffers this) [] [] []))
   \<or> (\<exists>rest nb tx cs. ok \<and> mLastUpdateGenerationCounter this \<noteq> GenerationCounter c
         \<and> ImagesLoop env (RemoveInvalid (CurrentImages c)) (mBuffers this) [] [] [] = LoopDone rest nb tx cs
         \<and> mBuffers this' = nb
         \<and> calls = cs @ [Call_UseTextures tx rr] @ RemoveAll rest rr)"
  by (auto simp: UpdateImage_def Let_def split: if_splits LoopResult.splits)

lemma find_filter_none: "find (\<lambda>b. f b = s) (filter (\<lambda>b. f b \<noteq> s) xs) = None"
  by (induction xs) auto




lemma ImagesLoop_done_distinct:
  assumes "ImagesLoop env imgs bufs nb tx cs = LoopDone bufs' nb' tx' cs'"
    and "distinct (map (\<lambda>i. GetSerial (mImage i)) imgs)"
    and "distinct (map mImageSerial nb)"
    and "\<forall>b \<in> set nb. mImageSerial b \<notin> SerialsOf imgs"
  shows "distinct (map mImageSerial nb')"
  using assms
proof (induction imgs arbitrary: bufs nb tx cs)
  case Nil
  then show ?case by simp
next
  case (Cons i imgs)
  show ?case
  proof (cases "LoopBody env i bufs")
    case (BodyReturnFalse b1 c1)
    with Cons.prems(1) show ?thesis by simp
  next
    case (BodyContinue b1 c1)
    with Cons.prems(1) have l: "ImagesLoop env imgs b1 nb tx (cs @ c1) = LoopDone bufs' nb' tx' cs'" by simp
    from Cons.prems(2,3,4) show ?thesis by (intro Cons.IH [OF l]) auto
  next
    case (BodyAppend b1 t nw c1)
    with Cons.prems(1) have l: "ImagesLoop env imgs b1 (nb @ [nw]) (tx @ [t]) (cs @ c1) = LoopDone bufs' nb' tx' cs'" by simp
    from LoopBody_Append [OF BodyAppend] have s: "mImageSerial nw = GetSerial (mImage i)" by simp
    from Cons.prems(2,3,4) s show ?thesis by (intro Cons.IH [OF l]) auto
  qed
qed

lemma LoopBody_reuse_eq:
  assumes "GetTextureClient (mImage img) = None"
    and "find (\<lambda>b. mImageSerial b = GetSerial (mImage img)) bufs = Some b"
  shows "LoopBody env img bufs =
          (if \<not> IPCOpen env (Buffer.mTextureClient b)
             then BodyContinue (filter (\<lambda>b. mImageSerial b \<noteq> GetSerial (mImage img)) bufs) []
           else if \<not> CompositableClient_AddTextureClient env (Buffer.mTextureClient b)
             then BodyReturnFalse (filter (\<lambda>b. mImageSerial b \<noteq> GetSerial (mImage img)) bufs)
                    [Call_AddTextureClient (Buffer.mTextureClient b)]
           else BodyAppend (filter (\<lambda>b. mImageSerial b \<noteq> GetSerial (mImage img)) bufs)
                  \<lparr>TimedTextureClient.mTextureClient = Buffer.mTextureClient b,
                   TimedTextureClient.mTimeStamp = OwningImage.mTimeStamp img,
                   mPictureRect = GetPictureRect (mImage img),
                   TimedTextureClient.mFrameID = OwningImage.mFrameID img,
                   TimedTextureClient.mProducerID = OwningImage.mProducerID img\<rparr>
                  b
                  [Call_AddTextureClient (Buffer.mTextureClient b),
                   Call_SyncWithObject (Buffer.mTextureClient b)])"
  using ObtainTexture_reuse [OF assms, of env] find_Some_props [OF assms(2)]
  by (simp add: LoopBody_def Let_def)


lemma FlushAllImages_removes_all:
  "FlushAllImages d this =
     (this\<lparr>mBuffers := []\<rparr>,
      map (\<lambda>b. Call_RemoveTextureFromCompositable (Buffer.mTextureClient b) (Some d)) (mBuffers this))"
  by (simp add: FlushAllImages_def RemoveAll_def)

subsection \<open>The bridge client\<close>

lemma Bridge_UpdateImage_attached:
  assumes "mForwarder this = Some fwd" "mLayer this = Some layer"
  shows "Bridge_UpdateImage c this =
           (True, this\<lparr>mAsyncContainerHandle := GetAsyncContainerHandle c\<rparr>,
            if mAsyncContainerHandle this = GetAsyncContainerHandle c
                \<or> GetAsyncContainerHandle c = None then []
            else [Call_AttachAsyncCompositable (GetAsyncContainerHandle c) layer])"
  using assms by (auto simp: Bridge_UpdateImage_def Let_def)

lemma Bridge_UpdateImage_seq_same:
  assumes "mForwarder this = Some fwd" "mLayer this = Some layer"
    "mAsyncContainerHandle this = Some h"
    "\<forall>c \<in> set cs. GetAsyncContainerHandle c = Some h"
  shows "Bridge_UpdateImage_seq cs this = (replicate (length cs) True, this, [])"
  using assms
proof (induction cs)
  case Nil
  then show ?case by simp
next
  case (Cons c cs)
  then have "Bridge_UpdateImage c this = (True, this, [])"
    by (simp add: Bridge_UpdateImage_def)
  with Cons show ?case by simp
qed

section \<open>The claims\<close>

subsection \<open>The generation fast path\<close>

text \<open>
  C3. When the container's generation counter equals the client's
  \<open>mLastUpdateGenerationCounter\<close>, \<open>UpdateImage\<close> returns true, leaves the client as it
  was and makes no call at all (no allocator call, no forwarder call). In particular,
  whatever a first call did and whatever it returned, a second call with a container of the
  same generation is such a no-op: the first call has recorded that generation.
\<close>

theorem UpdateImage_same_generation_noop:
  assumes "GenerationCounter c2 = GenerationCounter c"
  shows "(mLastUpdateGenerationCounter this = GenerationCounter c \<longrightarrow>
            UpdateImage env c rr this = (True, this, []))
       \<and> UpdateImage env2 c2 rr2 (fst (snd (UpdateImage env c rr this)))
           = (True, fst (snd (UpdateImage env c rr this)), [])"
proof -
  have recorded:
    "mLastUpdateGenerationCounter (fst (snd (UpdateImage env c rr this))) = GenerationCounter c"
    by (simp add: UpdateImage_def Let_def split: LoopResult.splits)
  have noop: "UpdateImage e k r t = (True, t, [])"
    if "mLastUpdateGenerationCounter t = GenerationCounter k" for e k r t
    using that by (simp add: UpdateImage_def)
  show ?thesis
    using noop [of this c env rr] noop [of "fst (snd (UpdateImage env c rr this))" c2 env2 rr2]
      recorded assms by simp
qed

theorem UpdateImage_same_generation_noop_witness:
  "GenerationCounter (example_container [2, 3] 5) = GenerationCounter (example_container [1, 2] 5)
   \<and> mLastUpdateGenerationCounter (example_client [] 5) = GenerationCounter (example_container [1, 2] 5)
   \<and> UpdateImage example_env (example_container [1, 2] 5) None (example_client [] 5)
       = (True, example_client [] 5, [])
   \<and> UpdateImage example_env (example_container [2, 3] 5) None
        (fst (snd (UpdateImage example_env (example_container [1, 2] 5) None (example_client [] 4))))
       = (True, fst (snd (UpdateImage example_env (example_container [1, 2] 5) None (example_client [] 4))), [])"
proof -
  have g: "GenerationCounter (example_container [2, 3] 5) = GenerationCounter (example_container [1, 2] 5)"
    by (simp add: example_container_def)
  have l: "mLastUpdateGenerationCounter (example_client [] 5) = GenerationCounter (example_container [1, 2] 5)"
    by (simp add: example_container_def example_client_def)
  show ?thesis
    using g l
      UpdateImage_same_generation_noop [OF g, of "example_client [] 5" example_env None example_env None]
      UpdateImage_same_generation_noop [OF g, of "example_client [] 4" example_env None example_env None]
    by simp
qed

text \<open>
  C10. A newly constructed single-buffer client has \<open>mLastUpdateGenerationCounter = 0\<close>
  and no buffers. So the first \<open>UpdateImage\<close> against a container whose generation
  counter is 0 takes the fast path: it returns true, makes no call and creates no buffer,
  whatever images the container holds.
\<close>

theorem UpdateImage_fresh_client_generation_zero:
  "mLastUpdateGenerationCounter (ImageClientSingle_new aFwd aFlags aType) = 0
   \<and> mBuffers (ImageClientSingle_new aFwd aFlags aType) = []
   \<and> (GenerationCounter c = 0 \<longrightarrow>
        UpdateImage env c rr (ImageClientSingle_new aFwd aFlags aType)
          = (True, ImageClientSingle_new aFwd aFlags aType, []))"
  by (simp add: ImageClientSingle_new_eq UpdateImage_def)

theorem UpdateImage_fresh_client_generation_zero_witness:
  "GenerationCounter (example_container [1, 2] 0) = 0
   \<and> CurrentImages (example_container [1, 2] 0) \<noteq> []
   \<and> UpdateImage example_env (example_container [1, 2] 0) None (ImageClientSingle_new (Some 0) 0 IMAGE)
       = (True, ImageClientSingle_new (Some 0) 0 IMAGE, [])
   \<and> mBuffers (ImageClientSingle_new (Some 0) 0 IMAGE) = []"
  using UpdateImage_fresh_client_generation_zero
          [of "Some 0" 0 IMAGE "example_container [1, 2] 0" example_env None]
  by (simp add: example_container_def)

subsection \<open>The empty snapshot\<close>

text \<open>
  C6. When the generation has changed and the snapshot is empty once the images that are
  not valid have been removed,
  \<open>UpdateImage\<close> issues one \<^verbatim>\<open>RemoveTextureFromCompositable\<close> for every buffer of
  \<open>mBuffers\<close>, in order, and nothing else; it leaves \<open>mBuffers\<close> empty and returns true,
  also when \<open>mBuffers\<close> was not empty before.
\<close>

theorem UpdateImage_empty_snapshot:
  assumes "mLastUpdateGenerationCounter this \<noteq> GenerationCounter c"
    and "RemoveInvalid (CurrentImages c) = []"
  shows "UpdateImage env c rr this =
           (True,
            this\<lparr>mLastUpdateGenerationCounter := GenerationCounter c, mBuffers := []\<rparr>,
            map (\<lambda>b. Call_RemoveTextureFromCompositable (Buffer.mTextureClient b) rr) (mBuffers this))"
  using assms by (simp add: UpdateImage_def RemoveAll_def)

theorem UpdateImage_empty_snapshot_witness:
  "mLastUpdateGenerationCounter (example_client [\<lparr>mImageSerial = 1, mTextureClient = 201\<rparr>] 5)
     \<noteq> GenerationCounter (example_invalid_container [7] 6)
   \<and> CurrentImages (example_invalid_container [7] 6) \<noteq> []
   \<and> RemoveInvalid (CurrentImages (example_invalid_container [7] 6)) = []
   \<and> UpdateImage example_env (example_invalid_container [7] 6) None
        (example_client [\<lparr>mImageSerial = 1, mTextureClient = 201\<rparr>] 5)
       = (True, example_client [] 6, [Call_RemoveTextureFromCompositable 201 None])"
proof -
  have g: "mLastUpdateGenerationCounter (example_client [\<lparr>mImageSerial = 1, mTextureClient = 201\<rparr>] 5)
             \<noteq> GenerationCounter (example_invalid_container [7] 6)"
    by (simp add: example_client_def example_invalid_container_def)
  have e: "RemoveInvalid (CurrentImages (example_invalid_container [7] 6)) = []"
    by (simp add: example_invalid_container_def example_invalid_frame_def example_frame_def)
  show ?thesis
    using g e UpdateImage_empty_snapshot [OF g e, of example_env None]
    by (simp add: example_client_def example_invalid_container_def)
qed

subsection \<open>A call that returns false\<close>

text \<open>
  C1, as stated, fails: a call that returns false because a texture could not be created
  does not leave \<open>mBuffers\<close> as it was. With one buffer for serial 1 and a snapshot of
  the frames 1 and 2, frame 1 takes its buffer out of \<open>mBuffers\<close>; the allocation for
  frame 2 then fails, the call returns false, and \<open>mBuffers\<close> is empty.
\<close>

theorem UpdateImage_abort_changes_buffers:
  "UpdateImage example_env_no_memory (example_container [1, 2] 6) None
     (example_client [\<lparr>mImageSerial = 1, mTextureClient = 201\<rparr>] 5)
   = (False, example_client [] 6,
      [Call_AddTextureClient 201, Call_SyncWithObject 201, Call_CreateForDrawing 2])
   \<and> mBuffers (example_client [] 6)
       \<noteq> mBuffers (example_client [\<lparr>mImageSerial = 1, mTextureClient = 201\<rparr>] 5)"
  by (simp add: eval_defs example_defs)

text \<open>
  C1, amended. When \<open>UpdateImage\<close> returns false, no buffer has been added to
  \<open>mBuffers\<close> or replaced in it, but \<open>mBuffers\<close> is not restored. Let the failing frame
  be the first frame of the valid snapshot at which the body of the loop returns false
  (every frame before it was handled without returning). Then \<open>mBuffers\<close> after the call
  is what the failing frame's pass leaves: the earlier \<open>mBuffers\<close>, in the same order,
  without the buffers whose serial is that of the failing frame or of a frame before it.
  Buffers matching only frames after the failing one are still there.
\<close>

theorem UpdateImage_abort_buffers:
  assumes "UpdateImage env c rr this = (False, this', calls)"
  shows "subseq (mBuffers this') (mBuffers this)
       \<and> (\<exists>n<length (RemoveInvalid (CurrentImages c)).
             mBuffers this' =
               filter (\<lambda>b. mImageSerial b \<notin> SerialsOf (take (Suc n) (RemoveInvalid (CurrentImages c))))
                 (mBuffers this)
           \<and> (\<exists>cs. LoopBody env (RemoveInvalid (CurrentImages c) ! n)
                      (filter (\<lambda>b. mImageSerial b \<notin> SerialsOf (take n (RemoveInvalid (CurrentImages c))))
                         (mBuffers this))
                    = BodyReturnFalse (mBuffers this') cs)
           \<and> (\<forall>k<n. \<forall>b cs. LoopBody env (RemoveInvalid (CurrentImages c) ! k)
                      (filter (\<lambda>b. mImageSerial b \<notin> SerialsOf (take k (RemoveInvalid (CurrentImages c))))
                         (mBuffers this))
                    \<noteq> BodyReturnFalse b cs))"
proof -
  from assms obtain bufs cs where
    loop: "ImagesLoop env (RemoveInvalid (CurrentImages c)) (mBuffers this) [] [] [] = LoopReturnFalse bufs cs"
    and this': "mBuffers this' = bufs"
    by (auto simp: UpdateImage_def Let_def split: if_splits LoopResult.splits)
  from ImagesLoop_false_first [OF loop] this'
  have ex: "\<exists>n<length (RemoveInvalid (CurrentImages c)).
             mBuffers this' =
               filter (\<lambda>b. mImageSerial b \<notin> SerialsOf (take (Suc n) (RemoveInvalid (CurrentImages c))))
                 (mBuffers this)
           \<and> (\<exists>cs. LoopBody env (RemoveInvalid (CurrentImages c) ! n)
                      (filter (\<lambda>b. mImageSerial b \<notin> SerialsOf (take n (RemoveInvalid (CurrentImages c))))
                         (mBuffers this))
                    = BodyReturnFalse (mBuffers this') cs)
           \<and> (\<forall>k<n. \<forall>b cs. LoopBody env (RemoveInvalid (CurrentImages c) ! k)
                      (filter (\<lambda>b. mImageSerial b \<notin> SerialsOf (take k (RemoveInvalid (CurrentImages c))))
                         (mBuffers this))
                    \<noteq> BodyReturnFalse b cs)" by simp
  then obtain n where "mBuffers this' =
               filter (\<lambda>b. mImageSerial b \<notin> SerialsOf (take (Suc n) (RemoveInvalid (CurrentImages c))))
                 (mBuffers this)" by blast
  then have "subseq (mBuffers this') (mBuffers this)" by simp
  with ex show ?thesis by blast
qed

theorem UpdateImage_abort_buffers_witness:
  "UpdateImage example_env_no_memory (example_container [2, 3, 1] 6) None
     (example_client [\<lparr>mImageSerial = 1, mTextureClient = 151\<rparr>, \<lparr>mImageSerial = 2, mTextureClient = 152\<rparr>] 5)
   = (False, example_client [\<lparr>mImageSerial = 1, mTextureClient = 151\<rparr>] 6,
      [Call_AddTextureClient 152, Call_SyncWithObject 152, Call_CreateForDrawing 3])
   \<and> subseq (mBuffers (example_client [\<lparr>mImageSerial = 1, mTextureClient = 151\<rparr>] 6))
        (mBuffers (example_client [\<lparr>mImageSerial = 1, mTextureClient = 151\<rparr>, \<lparr>mImageSerial = 2, mTextureClient = 152\<rparr>] 5))
   \<and> LoopBody example_env_no_memory (example_frame 2)
        [\<lparr>mImageSerial = 1, mTextureClient = 151\<rparr>, \<lparr>mImageSerial = 2, mTextureClient = 152\<rparr>]
       = BodyAppend [\<lparr>mImageSerial = 1, mTextureClient = 151\<rparr>]
           \<lparr>TimedTextureClient.mTextureClient = 152, mTimeStamp = 0, mPictureRect = (0, 0, 640, 480),
            mFrameID = 2, mProducerID = 0\<rparr>
           \<lparr>mImageSerial = 2, mTextureClient = 152\<rparr>
           [Call_AddTextureClient 152, Call_SyncWithObject 152]
   \<and> LoopBody example_env_no_memory (example_frame 3) [\<lparr>mImageSerial = 1, mTextureClient = 151\<rparr>]
       = BodyReturnFalse [\<lparr>mImageSerial = 1, mTextureClient = 151\<rparr>] [Call_CreateForDrawing 3]"
proof -
  have run: "UpdateImage example_env_no_memory (example_container [2, 3, 1] 6) None
     (example_client [\<lparr>mImageSerial = 1, mTextureClient = 151\<rparr>, \<lparr>mImageSerial = 2, mTextureClient = 152\<rparr>] 5)
   = (False, example_client [\<lparr>mImageSerial = 1, mTextureClient = 151\<rparr>] 6,
      [Call_AddTextureClient 152, Call_SyncWithObject 152, Call_CreateForDrawing 3])"
    by (simp add: eval_defs example_defs)
  have body2: "LoopBody example_env_no_memory (example_frame 2)
        [\<lparr>mImageSerial = 1, mTextureClient = 151\<rparr>, \<lparr>mImageSerial = 2, mTextureClient = 152\<rparr>]
       = BodyAppend [\<lparr>mImageSerial = 1, mTextureClient = 151\<rparr>]
           \<lparr>TimedTextureClient.mTextureClient = 152, mTimeStamp = 0, mPictureRect = (0, 0, 640, 480),
            mFrameID = 2, mProducerID = 0\<rparr>
           \<lparr>mImageSerial = 2, mTextureClient = 152\<rparr>
           [Call_AddTextureClient 152, Call_SyncWithObject 152]"
    by (simp add: eval_defs example_defs)
  have body3: "LoopBody example_env_no_memory (example_frame 3) [\<lparr>mImageSerial = 1, mTextureClient = 151\<rparr>]
       = BodyReturnFalse [\<lparr>mImageSerial = 1, mTextureClient = 151\<rparr>] [Call_CreateForDrawing 3]"
    by (simp add: eval_defs example_defs)
  from UpdateImage_abort_buffers [OF run] run body2 body3 show ?thesis by blast
qed

text \<open>
  C2, as stated, fails: the generation is not recorded last. In a call that returns false
  because the allocation for the second frame fails, \<open>mLastUpdateGenerationCounter\<close> has
  gone from 5 to 6; a retry with the same generation 6, on a platform where allocation now
  succeeds, takes the fast path and publishes nothing.
\<close>

theorem UpdateImage_abort_records_generation:
  "fst (UpdateImage example_env_no_memory (example_container [1, 2] 6) None
          (example_client [\<lparr>mImageSerial = 1, mTextureClient = 201\<rparr>] 5)) = False
   \<and> mLastUpdateGenerationCounter
        (fst (snd (UpdateImage example_env_no_memory (example_container [1, 2] 6) None
          (example_client [\<lparr>mImageSerial = 1, mTextureClient = 201\<rparr>] 5)))) = 6
   \<and> mLastUpdateGenerationCounter (example_client [\<lparr>mImageSerial = 1, mTextureClient = 201\<rparr>] 5) = 5
   \<and> UpdateImage example_env (example_container [1, 2] 6) None
        (fst (snd (UpdateImage example_env_no_memory (example_container [1, 2] 6) None
          (example_client [\<lparr>mImageSerial = 1, mTextureClient = 201\<rparr>] 5))))
       = (True, example_client [] 6, [])"
  by (simp add: eval_defs example_defs)

text \<open>
  C2, amended. The generation is recorded right after the fast-path comparison, before
  the snapshot is filtered and before any buffer is obtained: after every call, whether it
  returns true or false, \<open>mLastUpdateGenerationCounter\<close> is the container's generation.
  So a call that returns false has recorded the new generation, and a retry with the same
  generation takes the fast path: it returns true and does nothing.
\<close>

theorem UpdateImage_records_generation_first:
  "mLastUpdateGenerationCounter (fst (snd (UpdateImage env c rr this))) = GenerationCounter c
   \<and> (\<not> fst (UpdateImage env c rr this) \<and> GenerationCounter c2 = GenerationCounter c \<longrightarrow>
        UpdateImage env2 c2 rr2 (fst (snd (UpdateImage env c rr this)))
          = (True, fst (snd (UpdateImage env c rr this)), []))"
proof -
  have recorded:
    "mLastUpdateGenerationCounter (fst (snd (UpdateImage env c rr this))) = GenerationCounter c"
    by (simp add: UpdateImage_def Let_def split: LoopResult.splits)
  then show ?thesis by (simp add: UpdateImage_def [of env2])
qed

theorem UpdateImage_records_generation_first_witness:
  "\<not> fst (UpdateImage example_env_no_memory (example_container [3] 6) None (example_client [] 5))
   \<and> GenerationCounter (example_container [3, 4] 6) = GenerationCounter (example_container [3] 6)
   \<and> mLastUpdateGenerationCounter
        (fst (snd (UpdateImage example_env_no_memory (example_container [3] 6) None (example_client [] 5))))
       = GenerationCounter (example_container [3] 6)
   \<and> UpdateImage example_env (example_container [3, 4] 6) None
        (fst (snd (UpdateImage example_env_no_memory (example_container [3] 6) None (example_client [] 5))))
       = (True,
          fst (snd (UpdateImage example_env_no_memory (example_container [3] 6) None (example_client [] 5))),
          [])"
proof -
  have f: "\<not> fst (UpdateImage example_env_no_memory (example_container [3] 6) None (example_client [] 5))"
    by (simp add: eval_defs example_defs)
  have g: "GenerationCounter (example_container [3, 4] 6) = GenerationCounter (example_container [3] 6)"
    by (simp add: example_container_def)
  from UpdateImage_records_generation_first
         [of example_env_no_memory "example_container [3] 6" None "example_client [] 5"
             "example_container [3, 4] 6" example_env None] f g
  show ?thesis by blast
qed

subsection \<open>The order of the forwarder's instructions\<close>

text \<open>
  C4, as stated, fails for one kind of successful call: when the snapshot is empty, the
  call returns true and issues \<^verbatim>\<open>RemoveTextureFromCompositable\<close> for the old buffers
  with no \<^verbatim>\<open>UseTextures\<close> before them (none is issued at all).
\<close>

theorem UpdateImage_remove_without_use:
  "UpdateImage example_env (example_container [] 6) None
     (example_client [\<lparr>mImageSerial = 1, mTextureClient = 201\<rparr>] 5)
   = (True, example_client [] 6, [Call_RemoveTextureFromCompositable 201 None])
   \<and> \<not> UseBeforeRemove [Call_RemoveTextureFromCompositable 201 None]"
  by (simp add: eval_defs example_defs)

text \<open>
  C4, amended. In every successful \<open>UpdateImage\<close> whose generation has changed and whose
  snapshot still holds a valid image, the calls are: calls that are neither
  \<^verbatim>\<open>UseTextures\<close> nor \<^verbatim>\<open>RemoveTextureFromCompositable\<close>, then one
  \<^verbatim>\<open>UseTextures\<close> whose descriptors carry, in order, the textures of the new
  \<open>mBuffers\<close>, then one \<^verbatim>\<open>RemoveTextureFromCompositable\<close> for each old buffer whose
  serial is not in the snapshot. So every removal comes after the batch.
\<close>

theorem UpdateImage_use_before_remove:
  assumes "UpdateImage env c rr this = (True, this', calls)"
    and "RemoveInvalid (CurrentImages c) \<noteq> []"
    and "mLastUpdateGenerationCounter this \<noteq> GenerationCounter c"
  shows "\<exists>pre textures.
           calls = pre @ [Call_UseTextures textures rr]
                     @ RemoveAll (filter (\<lambda>b. mImageSerial b \<notin> SerialsOf (RemoveInvalid (CurrentImages c)))
                                    (mBuffers this)) rr
         \<and> (\<forall>x \<in> set pre. \<not> IsUseOrRemove x)
         \<and> map TimedTextureClient.mTextureClient textures = map Buffer.mTextureClient (mBuffers this')
         \<and> UseBeforeRemove calls"
proof -
  let ?imgs = "RemoveInvalid (CurrentImages c)"
  from assms obtain bufs nb tx cs where
    loop: "ImagesLoop env ?imgs (mBuffers this) [] [] [] = LoopDone bufs nb tx cs"
    and this': "mBuffers this' = nb"
    and calls: "calls = cs @ [Call_UseTextures tx rr] @ RemoveAll bufs rr"
    by (auto simp: UpdateImage_def Let_def split: if_splits LoopResult.splits)
  from ImagesLoop_calls [of env ?imgs "mBuffers this" "[]" "[]" "[]"] loop
  have pre: "\<forall>x \<in> set cs. \<not> IsUseOrRemove x" by auto
  from ImagesLoop_done_new [OF loop]
  have tx: "map TimedTextureClient.mTextureClient tx = map Buffer.mTextureClient nb" by auto
  from ImagesLoop_done_bufs [OF loop]
  have bufs: "bufs = filter (\<lambda>b. mImageSerial b \<notin> SerialsOf ?imgs) (mBuffers this)" .
  from pre have "UseBeforeRemove calls"
    unfolding calls by (simp add: UseBeforeRemove_append)
  with pre tx bufs calls this' show ?thesis by blast
qed

theorem UpdateImage_use_before_remove_witness:
  "UpdateImage example_env (example_container [2, 3] 6) None
     (example_client [\<lparr>mImageSerial = 1, mTextureClient = 201\<rparr>, \<lparr>mImageSerial = 2, mTextureClient = 202\<rparr>] 5)
   = (True,
      example_client [\<lparr>mImageSerial = 2, mTextureClient = 202\<rparr>, \<lparr>mImageSerial = 3, mTextureClient = 203\<rparr>] 6,
      [Call_AddTextureClient 202, Call_SyncWithObject 202, Call_CreateForDrawing 3,
       Call_AddTextureClient 203, Call_SyncWithObject 203,
       Call_UseTextures
         [\<lparr>TimedTextureClient.mTextureClient = 202, mTimeStamp = 0, mPictureRect = (0, 0, 640, 480),
           mFrameID = 2, mProducerID = 0\<rparr>,
          \<lparr>TimedTextureClient.mTextureClient = 203, mTimeStamp = 0, mPictureRect = (0, 0, 640, 480),
           mFrameID = 3, mProducerID = 0\<rparr>] None,
       Call_RemoveTextureFromCompositable 201 None])
   \<and> RemoveInvalid (CurrentImages (example_container [2, 3] 6)) \<noteq> []
   \<and> mLastUpdateGenerationCounter
        (example_client [\<lparr>mImageSerial = 1, mTextureClient = 201\<rparr>, \<lparr>mImageSerial = 2, mTextureClient = 202\<rparr>] 5)
       \<noteq> GenerationCounter (example_container [2, 3] 6)
   \<and> UseBeforeRemove
       [Call_AddTextureClient 202, Call_SyncWithObject 202, Call_CreateForDrawing 3,
        Call_AddTextureClient 203, Call_SyncWithObject 203,
        Call_UseTextures
          [\<lparr>TimedTextureClient.mTextureClient = 202, mTimeStamp = 0, mPictureRect = (0, 0, 640, 480),
            mFrameID = 2, mProducerID = 0\<rparr>,
           \<lparr>TimedTextureClient.mTextureClient = 203, mTimeStamp = 0, mPictureRect = (0, 0, 640, 480),
            mFrameID = 3, mProducerID = 0\<rparr>] None,
        Call_RemoveTextureFromCompositable 201 None]"
proof -
  have run: "UpdateImage example_env (example_container [2, 3] 6) None
     (example_client [\<lparr>mImageSerial = 1, mTextureClient = 201\<rparr>, \<lparr>mImageSerial = 2, mTextureClient = 202\<rparr>] 5)
   = (True,
      example_client [\<lparr>mImageSerial = 2, mTextureClient = 202\<rparr>, \<lparr>mImageSerial = 3, mTextureClient = 203\<rparr>] 6,
      [Call_AddTextureClient 202, Call_SyncWithObject 202, Call_CreateForDrawing 3,
       Call_AddTextureClient 203, Call_SyncWithObject 203,
       Call_UseTextures
         [\<lparr>TimedTextureClient.mTextureClient = 202, mTimeStamp = 0, mPictureRect = (0, 0, 640, 480),
           mFrameID = 2, mProducerID = 0\<rparr>,
          \<lparr>TimedTextureClient.mTextureClient = 203, mTimeStamp = 0, mPictureRect = (0, 0, 640, 480),
           mFrameID = 3, mProducerID = 0\<rparr>] None,
       Call_RemoveTextureFromCompositable 201 None])"
    by (simp add: eval_defs example_defs)
  have ne: "RemoveInvalid (CurrentImages (example_container [2, 3] 6)) \<noteq> []"
    by (simp add: example_defs)
  have g: "mLastUpdateGenerationCounter
        (example_client [\<lparr>mImageSerial = 1, mTextureClient = 201\<rparr>, \<lparr>mImageSerial = 2, mTextureClient = 202\<rparr>] 5)
       \<noteq> GenerationCounter (example_container [2, 3] 6)"
    by (simp add: example_defs)
  from UpdateImage_use_before_remove [OF run ne g] run ne g show ?thesis by blast
qed

subsection \<open>Reusing a buffer\<close>

text \<open>
  C5, as stated, fails for two kinds of frame that have no texture client of their own and
  whose serial is that of a buffer of \<open>mBuffers\<close>. When the channel of the buffer's
  texture is closed, the buffer is taken out of \<open>mBuffers\<close> and the frame is skipped: the
  buffer is dropped, not replaced (the new \<open>mBuffers\<close> is empty and no removal is
  issued). When the snapshot holds two frames of that serial, the second finds no buffer
  left: the allocator is called for it, and the new \<open>mBuffers\<close> holds two buffers of the
  serial.
\<close>

theorem UpdateImage_matching_frame_not_replaced:
  "UpdateImage (example_env_closed 151) (example_container [1] 6) None
     (example_client [\<lparr>mImageSerial = 1, mTextureClient = 151\<rparr>] 5)
   = (True, example_client [] 6, [Call_UseTextures [] None])
   \<and> UpdateImage example_env (example_container [1, 1] 6) None
       (example_client [\<lparr>mImageSerial = 1, mTextureClient = 151\<rparr>] 5)
     = (True,
        example_client [\<lparr>mImageSerial = 1, mTextureClient = 151\<rparr>, \<lparr>mImageSerial = 1, mTextureClient = 201\<rparr>] 6,
        [Call_AddTextureClient 151, Call_SyncWithObject 151, Call_CreateForDrawing 1,
         Call_AddTextureClient 201, Call_SyncWithObject 201,
         Call_UseTextures
           [\<lparr>TimedTextureClient.mTextureClient = 151, mTimeStamp = 0, mPictureRect = (0, 0, 640, 480),
             mFrameID = 1, mProducerID = 0\<rparr>,
            \<lparr>TimedTextureClient.mTextureClient = 201, mTimeStamp = 0, mPictureRect = (0, 0, 640, 480),
             mFrameID = 1, mProducerID = 0\<rparr>] None])"
  by (simp add: eval_defs example_defs)

text \<open>
  C5, amended. When the loop handles a frame whose image has no texture client of its own
  and whose serial is that of a buffer still in \<open>mBuffers\<close>, it takes the texture client
  of the first such buffer, makes no allocator call, and takes every buffer of that serial
  out of \<open>mBuffers\<close>. The buffer is replaced - the same serial and texture are appended to
  the new list and a descriptor with that texture to the batch - only when the texture's
  channel is open and \<^verbatim>\<open>AddTextureClient\<close> accepts it; with a closed channel the frame
  is skipped and nothing is appended. A later frame of the same serial without a texture
  client of its own finds no buffer and goes to the allocator. For a call on a snapshot
  without repeated serials and a frame matching a buffer of \<open>mBuffers\<close> as the call
  finds it: no allocator call is made for the frame and no removal is issued for a buffer
  of its serial, whatever the call returns; and after a successful call with a changed
  generation the new \<open>mBuffers\<close> has no two buffers of one serial and holds the matched
  buffer exactly when its texture's channel is open, the batch then holding its texture.
\<close>

theorem UpdateImage_reuses_matching_buffer:
  assumes own: "GetTextureClient (mImage img) = None"
    and found: "find (\<lambda>b. mImageSerial b = GetSerial (mImage img)) bufs = Some b"
  shows "LoopBody env img bufs =
          (if \<not> IPCOpen env (Buffer.mTextureClient b)
             then BodyContinue (filter (\<lambda>b. mImageSerial b \<noteq> GetSerial (mImage img)) bufs) []
           else if \<not> CompositableClient_AddTextureClient env (Buffer.mTextureClient b)
             then BodyReturnFalse (filter (\<lambda>b. mImageSerial b \<noteq> GetSerial (mImage img)) bufs)
                    [Call_AddTextureClient (Buffer.mTextureClient b)]
           else BodyAppend (filter (\<lambda>b. mImageSerial b \<noteq> GetSerial (mImage img)) bufs)
                  \<lparr>TimedTextureClient.mTextureClient = Buffer.mTextureClient b,
                   TimedTextureClient.mTimeStamp = OwningImage.mTimeStamp img,
                   mPictureRect = GetPictureRect (mImage img),
                   TimedTextureClient.mFrameID = OwningImage.mFrameID img,
                   TimedTextureClient.mProducerID = OwningImage.mProducerID img\<rparr>
                  b
                  [Call_AddTextureClient (Buffer.mTextureClient b),
                   Call_SyncWithObject (Buffer.mTextureClient b)])
       \<and> find (\<lambda>b. mImageSerial b = GetSerial (mImage img)) (BodyBufs (LoopBody env img bufs)) = None
       \<and> (GetTextureClient (mImage img2) = None \<and> GetSerial (mImage img2) = GetSerial (mImage img) \<longrightarrow>
            ObtainTexture env (mImage img2) (BodyBufs (LoopBody env img bufs)) =
              (fst (CreateTextureClientForImage env (mImage img2)),
               BodyBufs (LoopBody env img bufs),
               snd (CreateTextureClientForImage env (mImage img2))))
       \<and> (UpdateImage env c rr this = (ok, this', calls)
            \<and> mBuffers this = bufs
            \<and> img \<in> set (RemoveInvalid (CurrentImages c))
            \<and> distinct (map (\<lambda>i. GetSerial (mImage i)) (RemoveInvalid (CurrentImages c)))
          \<longrightarrow>
            (\<forall>x \<in> set calls. \<not> IsAllocFor (GetSerial (mImage img)) x)
          \<and> (\<forall>t r. Call_RemoveTextureFromCompositable t r \<in> set calls \<longrightarrow>
                (\<exists>b' \<in> set bufs. Buffer.mTextureClient b' = t
                    \<and> mImageSerial b' \<noteq> GetSerial (mImage img)))
          \<and> (ok \<and> mLastUpdateGenerationCounter this \<noteq> GenerationCounter c \<longrightarrow>
                distinct (map mImageSerial (mBuffers this'))
              \<and> (b \<in> set (mBuffers this')) = IPCOpen env (Buffer.mTextureClient b)
              \<and> (IPCOpen env (Buffer.mTextureClient b) \<longrightarrow>
                   (\<exists>ts. Call_UseTextures ts rr \<in> set calls
                      \<and> Buffer.mTextureClient b \<in> set (map TimedTextureClient.mTextureClient ts)))))"
proof -
  let ?s = "GetSerial (mImage img)"
  let ?imgs = "RemoveInvalid (CurrentImages c)"
  have bb: "BodyBufs (LoopBody env img bufs) = filter (\<lambda>b. mImageSerial b \<noteq> ?s) bufs"
    by (rule LoopBody_bufs)
  have P1: "LoopBody env img bufs =
          (if \<not> IPCOpen env (Buffer.mTextureClient b)
             then BodyContinue (filter (\<lambda>b. mImageSerial b \<noteq> ?s) bufs) []
           else if \<not> CompositableClient_AddTextureClient env (Buffer.mTextureClient b)
             then BodyReturnFalse (filter (\<lambda>b. mImageSerial b \<noteq> ?s) bufs)
                    [Call_AddTextureClient (Buffer.mTextureClient b)]
           else BodyAppend (filter (\<lambda>b. mImageSerial b \<noteq> ?s) bufs)
                  \<lparr>TimedTextureClient.mTextureClient = Buffer.mTextureClient b,
                   TimedTextureClient.mTimeStamp = OwningImage.mTimeStamp img,
                   mPictureRect = GetPictureRect (mImage img),
                   TimedTextureClient.mFrameID = OwningImage.mFrameID img,
                   TimedTextureClient.mProducerID = OwningImage.mProducerID img\<rparr>
                  b
                  [Call_AddTextureClient (Buffer.mTextureClient b),
                   Call_SyncWithObject (Buffer.mTextureClient b)])"
    by (rule LoopBody_reuse_eq [OF own found])
  have P2: "find (\<lambda>b. mImageSerial b = ?s) (BodyBufs (LoopBody env img bufs)) = None"
    unfolding bb by (rule find_filter_none)
  have P3: "GetTextureClient (mImage img2) = None \<and> GetSerial (mImage img2) = ?s \<longrightarrow>
            ObtainTexture env (mImage img2) (BodyBufs (LoopBody env img bufs)) =
              (fst (CreateTextureClientForImage env (mImage img2)),
               BodyBufs (LoopBody env img bufs),
               snd (CreateTextureClientForImage env (mImage img2)))"
  proof
    assume a: "GetTextureClient (mImage img2) = None \<and> GetSerial (mImage img2) = ?s"
    then have f: "find (\<lambda>b. mImageSerial b = GetSerial (mImage img2)) (BodyBufs (LoopBody env img bufs)) = None"
      using P2 by simp
    have "filter (\<lambda>b. mImageSerial b \<noteq> GetSerial (mImage img2)) (BodyBufs (LoopBody env img bufs))
            = BodyBufs (LoopBody env img bufs)"
      using a unfolding bb by simp
    with a f show "ObtainTexture env (mImage img2) (BodyBufs (LoopBody env img bufs)) =
              (fst (CreateTextureClientForImage env (mImage img2)),
               BodyBufs (LoopBody env img bufs),
               snd (CreateTextureClientForImage env (mImage img2)))"
      by (simp add: ObtainTexture_eq)
  qed
  have P4: "(\<forall>x \<in> set calls. \<not> IsAllocFor ?s x)
          \<and> (\<forall>t r. Call_RemoveTextureFromCompositable t r \<in> set calls \<longrightarrow>
                (\<exists>b' \<in> set bufs. Buffer.mTextureClient b' = t \<and> mImageSerial b' \<noteq> ?s))
          \<and> (ok \<and> mLastUpdateGenerationCounter this \<noteq> GenerationCounter c \<longrightarrow>
                distinct (map mImageSerial (mBuffers this'))
              \<and> (b \<in> set (mBuffers this')) = IPCOpen env (Buffer.mTextureClient b)
              \<and> (IPCOpen env (Buffer.mTextureClient b) \<longrightarrow>
                   (\<exists>ts. Call_UseTextures ts rr \<in> set calls
                      \<and> Buffer.mTextureClient b \<in> set (map TimedTextureClient.mTextureClient ts))))"
    if run: "UpdateImage env c rr this = (ok, this', calls)"
      and bufs0: "mBuffers this = bufs"
      and mem: "img \<in> set ?imgs"
      and dist: "distinct (map (\<lambda>i. GetSerial (mImage i)) ?imgs)"
  proof -
    from mem have ne: "?imgs \<noteq> []" by auto
    from found bufs0 have found': "find (\<lambda>b. mImageSerial b = ?s) (mBuffers this) = Some b" by simp
    from ImagesLoop_reuse_calls [OF mem dist own found', of env "[]" "[]" "[]"]
    have lc: "\<forall>x \<in> set (LoopCalls (ImagesLoop env ?imgs (mBuffers this) [] [] [])). \<not> IsAllocFor ?s x"
      by auto
    from ImagesLoop_calls [of env ?imgs "mBuffers this" "[]" "[]" "[]"]
    have lf: "\<forall>x \<in> set (LoopCalls (ImagesLoop env ?imgs (mBuffers this) [] [] [])). \<not> IsUseOrRemove x"
      by auto
    from UpdateImage_calls_cases [OF run] ne
    consider (nocalls) "calls = []"
      | (aborted) "\<not> ok" "calls = LoopCalls (ImagesLoop env ?imgs (mBuffers this) [] [] [])"
      | (completed) rest nb tx cs where "ok" "mLastUpdateGenerationCounter this \<noteq> GenerationCounter c"
          "ImagesLoop env ?imgs (mBuffers this) [] [] [] = LoopDone rest nb tx cs"
          "mBuffers this' = nb" "calls = cs @ [Call_UseTextures tx rr] @ RemoveAll rest rr"
      by blast
    then show ?thesis
    proof cases
      case nocalls
      with run have "\<not> (ok \<and> mLastUpdateGenerationCounter this \<noteq> GenerationCounter c)"
        using ne by (auto simp: UpdateImage_def Let_def split: if_splits LoopResult.splits)
      with nocalls show ?thesis by auto
    next
      case aborted
      with lc lf show ?thesis by auto
    next
      case completed
      note loop = completed(3) and this' = completed(4) and calls = completed(5)
      from lc lf loop have cs: "\<forall>x \<in> set cs. \<not> IsAllocFor ?s x"
        and pre: "\<forall>x \<in> set cs. \<not> IsUseOrRemove x" by auto
      from ImagesLoop_reuse [OF loop mem dist own found']
      have nb: "IPCOpen env (Buffer.mTextureClient b) \<longrightarrow> b \<in> set nb" by auto
      from ImagesLoop_done_bufs [OF loop]
      have rest: "rest = filter (\<lambda>b. mImageSerial b \<notin> SerialsOf ?imgs) (mBuffers this)" .
      from ImagesLoop_done_new [OF loop]
      have tx: "map TimedTextureClient.mTextureClient tx = map Buffer.mTextureClient nb"
        and opn: "\<forall>b \<in> set nb. IPCOpen env (Buffer.mTextureClient b)" by auto
      have A: "\<forall>x \<in> set calls. \<not> IsAllocFor ?s x"
        using cs by (auto simp: calls RemoveAll_def)
      have B: "\<forall>t r. Call_RemoveTextureFromCompositable t r \<in> set calls \<longrightarrow>
                (\<exists>b' \<in> set bufs. Buffer.mTextureClient b' = t \<and> mImageSerial b' \<noteq> ?s)"
      proof (intro allI impI)
        fix t r
        assume "Call_RemoveTextureFromCompositable t r \<in> set calls"
        with pre have "Call_RemoveTextureFromCompositable t r \<in> set (RemoveAll rest rr)"
          by (auto simp: calls)
        then obtain b' where "b' \<in> set rest" "Buffer.mTextureClient b' = t"
          by (auto simp: RemoveAll_def)
        with rest mem bufs0 show "\<exists>b' \<in> set bufs. Buffer.mTextureClient b' = t \<and> mImageSerial b' \<noteq> ?s"
          by auto
      qed
      have C: "distinct (map mImageSerial (mBuffers this'))"
        using ImagesLoop_done_distinct [OF loop dist] this' by simp
      have D: "(b \<in> set (mBuffers this')) = IPCOpen env (Buffer.mTextureClient b)"
        using nb opn this' by auto
      have E: "IPCOpen env (Buffer.mTextureClient b) \<longrightarrow>
                   (\<exists>ts. Call_UseTextures ts rr \<in> set calls
                      \<and> Buffer.mTextureClient b \<in> set (map TimedTextureClient.mTextureClient ts))"
      proof
        assume "IPCOpen env (Buffer.mTextureClient b)"
        with nb have "b \<in> set nb" by simp
        then have "Buffer.mTextureClient b \<in> set (map TimedTextureClient.mTextureClient tx)"
          unfolding tx by simp
        moreover have "Call_UseTextures tx rr \<in> set calls" by (simp add: calls)
        ultimately show "\<exists>ts. Call_UseTextures ts rr \<in> set calls
                      \<and> Buffer.mTextureClient b \<in> set (map TimedTextureClient.mTextureClient ts)"
          by blast
      qed
      from A B C D E show ?thesis by blast
    qed
  qed
  from P1 P2 P3 P4 show ?thesis by blast
qed

theorem UpdateImage_reuses_matching_buffer_witness:
  "UpdateImage example_env (example_container [2, 3] 6) None
     (example_client [\<lparr>mImageSerial = 1, mTextureClient = 151\<rparr>, \<lparr>mImageSerial = 2, mTextureClient = 152\<rparr>] 5)
   = (True,
      example_client [\<lparr>mImageSerial = 2, mTextureClient = 152\<rparr>, \<lparr>mImageSerial = 3, mTextureClient = 203\<rparr>] 6,
      [Call_AddTextureClient 152, Call_SyncWithObject 152, Call_CreateForDrawing 3,
       Call_AddTextureClient 203, Call_SyncWithObject 203,
       Call_UseTextures
         [\<lparr>TimedTextureClient.mTextureClient = 152, mTimeStamp = 0, mPictureRect = (0, 0, 640, 480),
           mFrameID = 2, mProducerID = 0\<rparr>,
          \<lparr>TimedTextureClient.mTextureClient = 203, mTimeStamp = 0, mPictureRect = (0, 0, 640, 480),
           mFrameID = 3, mProducerID = 0\<rparr>] None,
       Call_RemoveTextureFromCompositable 151 None])
   \<and> GetTextureClient (mImage (example_frame 2)) = None
   \<and> find (\<lambda>b. mImageSerial b = GetSerial (mImage (example_frame 2)))
        [\<lparr>mImageSerial = 1, mTextureClient = 151\<rparr>, \<lparr>mImageSerial = 2, mTextureClient = 152\<rparr>]
       = Some \<lparr>mImageSerial = 2, mTextureClient = 152\<rparr>
   \<and> IPCOpen example_env 152
   \<and> \<lparr>mImageSerial = 2, mTextureClient = 152\<rparr>
        \<in> set (mBuffers (example_client
              [\<lparr>mImageSerial = 2, mTextureClient = 152\<rparr>, \<lparr>mImageSerial = 3, mTextureClient = 203\<rparr>] 6))"
proof -
  let ?old = "[\<lparr>mImageSerial = 1, mTextureClient = 151\<rparr>, \<lparr>mImageSerial = 2, mTextureClient = 152\<rparr>]"
  let ?new = "[\<lparr>mImageSerial = 2, mTextureClient = 152\<rparr>, \<lparr>mImageSerial = 3, mTextureClient = 203\<rparr>]"
  have run: "UpdateImage example_env (example_container [2, 3] 6) None (example_client ?old 5)
   = (True, example_client ?new 6,
      [Call_AddTextureClient 152, Call_SyncWithObject 152, Call_CreateForDrawing 3,
       Call_AddTextureClient 203, Call_SyncWithObject 203,
       Call_UseTextures
         [\<lparr>TimedTextureClient.mTextureClient = 152, mTimeStamp = 0, mPictureRect = (0, 0, 640, 480),
           mFrameID = 2, mProducerID = 0\<rparr>,
          \<lparr>TimedTextureClient.mTextureClient = 203, mTimeStamp = 0, mPictureRect = (0, 0, 640, 480),
           mFrameID = 3, mProducerID = 0\<rparr>] None,
       Call_RemoveTextureFromCompositable 151 None])"
    by (simp add: eval_defs example_defs)
  have own: "GetTextureClient (mImage (example_frame 2)) = None"
    by (simp add: example_defs)
  have found: "find (\<lambda>b. mImageSerial b = GetSerial (mImage (example_frame 2))) ?old
       = Some \<lparr>mImageSerial = 2, mTextureClient = 152\<rparr>"
    by (simp add: example_defs)
  have gen: "mLastUpdateGenerationCounter (example_client ?old 5) \<noteq> GenerationCounter (example_container [2, 3] 6)"
    by (simp add: example_defs)
  have bufs: "mBuffers (example_client ?old 5) = ?old"
    by (simp add: example_defs)
  have mem: "example_frame 2 \<in> set (RemoveInvalid (CurrentImages (example_container [2, 3] 6)))"
    by (simp add: example_defs)
  have dist: "distinct (map (\<lambda>i. GetSerial (mImage i)) (RemoveInvalid (CurrentImages (example_container [2, 3] 6))))"
    by (simp add: example_defs)
  have opn: "IPCOpen example_env 152" by (simp add: example_defs)
  then have opn': "IPCOpen example_env (Buffer.mTextureClient \<lparr>mImageSerial = 2, mTextureClient = 152\<rparr>)"
    by simp
  from UpdateImage_reuses_matching_buffer
         [OF own found, where env = example_env and c = "example_container [2, 3] 6" and rr = None
            and this = "example_client ?old 5" and ok = True and this' = "example_client ?new 6"
            and calls = "[Call_AddTextureClient 152, Call_SyncWithObject 152, Call_CreateForDrawing 3,
               Call_AddTextureClient 203, Call_SyncWithObject 203,
               Call_UseTextures
                 [\<lparr>TimedTextureClient.mTextureClient = 152, mTimeStamp = 0, mPictureRect = (0, 0, 640, 480),
                   mFrameID = 2, mProducerID = 0\<rparr>,
                  \<lparr>TimedTextureClient.mTextureClient = 203, mTimeStamp = 0, mPictureRect = (0, 0, 640, 480),
                   mFrameID = 3, mProducerID = 0\<rparr>] None,
               Call_RemoveTextureFromCompositable 151 None]"
            and ?img2.0 = "example_frame 2"]
       run gen bufs mem dist opn'
  have "\<lparr>mImageSerial = 2, mTextureClient = 152\<rparr> \<in> set (mBuffers (example_client ?new 6))"
    by blast
  with run own found opn show ?thesis by blast
qed

subsection \<open>A texture whose channel is closed\<close>



subsection \<open>Detaching\<close>




subsection \<open>The bridge client\<close>

text \<open>
  C9, as stated, fails for a bridge client without a layer, which is what the constructor
  builds (\<open>mLayer\<close> is null): every call returns false and
  \<^verbatim>\<open>AttachAsyncCompositable\<close> is never issued.
\<close>

theorem Bridge_UpdateImage_new_bridge_fails:
  "Bridge_UpdateImage_seq [example_handle_container (Some 7), example_handle_container (Some 7)]
     (ImageClientBridge_new (Some 0) 0)
   = ([False, False], ImageClientBridge_new (Some 0) 0, [])"
  by (simp add: Bridge_UpdateImage_def ImageClientBridge_new_eq example_handle_container_def)

text \<open>
  C9, amended. For a bridge client that has a forwarder and a layer, a non-empty sequence
  of \<open>UpdateImage\<close> calls whose containers all carry the same non-empty handle \<open>h\<close>
  returns true every time and issues \<^verbatim>\<open>AttachAsyncCompositable\<close> exactly once, on
  the first call, when the client's recorded handle was not \<open>h\<close> before, and never when
  it was; the recorded handle is \<open>h\<close> afterwards. A bridge client without a forwarder or
  without a layer returns false and issues nothing.
\<close>

theorem Bridge_UpdateImage_attaches_once:
  "(mForwarder this = Some fwd \<and> mLayer this = Some layer \<and> cs \<noteq> []
      \<and> (\<forall>c \<in> set cs. GetAsyncContainerHandle c = Some h) \<longrightarrow>
        Bridge_UpdateImage_seq cs this =
          (replicate (length cs) True, this\<lparr>mAsyncContainerHandle := Some h\<rparr>,
           if mAsyncContainerHandle this = Some h then []
           else [Call_AttachAsyncCompositable (Some h) layer]))
   \<and> (mForwarder this = None \<or> mLayer this = None \<longrightarrow>
        Bridge_UpdateImage c this = (False, this, []))"
proof (intro conjI impI; (elim conjE)?)
  assume f: "mForwarder this = Some fwd" and l: "mLayer this = Some layer" and ne: "cs \<noteq> []"
    and h: "\<forall>c \<in> set cs. GetAsyncContainerHandle c = Some h"
  from ne obtain c0 rest where cs: "cs = c0 # rest" by (cases cs) auto
  let ?this1 = "this\<lparr>mAsyncContainerHandle := Some h\<rparr>"
  from h cs have h0: "GetAsyncContainerHandle c0 = Some h"
    and hr: "\<forall>c \<in> set rest. GetAsyncContainerHandle c = Some h" by auto
  have first: "Bridge_UpdateImage c0 this =
      (True, ?this1, if mAsyncContainerHandle this = Some h then []
                     else [Call_AttachAsyncCompositable (Some h) layer])"
    using Bridge_UpdateImage_attached [OF f l, of c0] h0 by simp
  have later: "Bridge_UpdateImage_seq rest ?this1 = (replicate (length rest) True, ?this1, [])"
    using f l hr by (intro Bridge_UpdateImage_seq_same [where fwd = fwd and layer = layer and h = h]) auto
  from first later cs
  show "Bridge_UpdateImage_seq cs this =
          (replicate (length cs) True, ?this1,
           if mAsyncContainerHandle this = Some h then []
           else [Call_AttachAsyncCompositable (Some h) layer])"
    by simp
next
  assume "mForwarder this = None \<or> mLayer this = None"
  then show "Bridge_UpdateImage c this = (False, this, [])"
    by (auto simp: Bridge_UpdateImage_def split: option.splits)
qed

theorem Bridge_UpdateImage_attaches_once_witness:
  "Bridge_UpdateImage_seq
     [example_handle_container (Some 7), example_handle_container (Some 7), example_handle_container (Some 7)]
     (example_bridge (Some 3) None)
   = ([True, True, True], example_bridge (Some 3) (Some 7), [Call_AttachAsyncCompositable (Some 7) 3])
   \<and> Bridge_UpdateImage (example_handle_container (Some 7)) (example_bridge None None)
       = (False, example_bridge None None, [])"
proof -
  let ?cs = "[example_handle_container (Some 7), example_handle_container (Some 7), example_handle_container (Some 7)]"
  have f: "mForwarder (example_bridge (Some 3) None) = Some 0"
    and l: "mLayer (example_bridge (Some 3) None) = Some 3"
    and n: "mLayer (example_bridge None None) = None"
    and h: "\<forall>c \<in> set ?cs. GetAsyncContainerHandle c = Some 7"
    by (simp_all add: example_bridge_def example_handle_container_def)
  from Bridge_UpdateImage_attaches_once
         [of "example_bridge (Some 3) None" 0 3 ?cs 7 "example_handle_container (Some 7)"] f l h
       Bridge_UpdateImage_attaches_once
         [of "example_bridge None None" 0 3 ?cs 7 "example_handle_container (Some 7)"] n
  show ?thesis by (simp add: example_bridge_def)
qed

end
